theory Spec2Isabelle
  imports Main
begin

section \<open>Data model of the content script's helpers\<close>

text \<open>
  The location object handed around by the content script. The fetched result carries
  the eight value fields; a cache entry is the same object with an \<open>expiry\<close> added
  (\<open>{ ...location, expiry }\<close>), so one record serves both and a missing \<open>expiry\<close>
  property is \<open>None\<close>. Flags are opaque strings. Timestamps are the integral
  millisecond counts of \<open>Date.now()\<close>.
\<close>

record locationData =
  location :: string
  locationFlag :: string
  source :: string
  sourceFlag :: string
  sourceCountry :: string
  locationAccurate :: bool
  isVpn :: bool
  learnMoreUrl :: "string option"
  expiry :: "int option"

type_synonym cache = "string \<rightharpoonup> locationData"

text \<open>Values kept in \<open>chrome.storage.local\<close>: the toggle is a boolean, the mode a string.\<close>

datatype jsval = JBool bool | JStr string

type_synonym storage = "string \<rightharpoonup> jsval"

definition MODE_KEY :: string where
  "MODE_KEY = ''display_mode''"

definition MODE_AUTO :: string where
  "MODE_AUTO = ''auto''"

definition MODE_MANUAL :: string where
  "MODE_MANUAL = ''manual''"

definition DEFAULT_MODE :: string where
  "DEFAULT_MODE = MODE_AUTO"

subsection \<open>Cache expiry and cache writes\<close>

text \<open>
  \<^verbatim>\<open>
  function isCacheEntryExpired(cacheEntry) {
    if (!cacheEntry || !cacheEntry.expiry) return true;
    return cacheEntry.expiry <= Date.now();
  }
  \<close>
  \<open>!cacheEntry\<close> holds for a null or undefined entry (\<open>None\<close>); \<open>!cacheEntry.expiry\<close>
  holds for a missing property and for the number 0. The clock is the second argument.
\<close>

definition isCacheEntryExpired :: "locationData option \<Rightarrow> int \<Rightarrow> bool" where
  "isCacheEntryExpired cacheEntry now =
     (case cacheEntry of
        None \<Rightarrow> True
      | Some e \<Rightarrow>
          (case expiry e of
             None \<Rightarrow> True
           | Some t \<Rightarrow> if t = 0 then True else t \<le> now))"

definition CACHE_EXPIRY_DAYS :: int where
  "CACHE_EXPIRY_DAYS = 30"

text \<open>
  \<^verbatim>\<open>
  async function saveCacheEntry(username, location, cache = mockLocationCache) {
    const CACHE_EXPIRY_DAYS = 30;
    const now = Date.now();
    const expiry = now + (CACHE_EXPIRY_DAYS * 24 * 60 * 60 * 1000);
    cache.set(username, { ...location, expiry });
    return cache;
  }
  \<close>
  The spread copies every property of \<open>location\<close> and \<open>expiry\<close> is set last, which is
  a record update. The mutated map is the result.
\<close>

definition saveCacheEntry :: "string \<Rightarrow> locationData \<Rightarrow> cache \<Rightarrow> int \<Rightarrow> cache" where
  "saveCacheEntry username loc c now =
     (let expiry' = now + (CACHE_EXPIRY_DAYS * 24 * 60 * 60 * 1000)
      in c(username \<mapsto> loc\<lparr>expiry := Some expiry'\<rparr>))"

subsection \<open>Mode storage\<close>

text \<open>
  The storage mock: \<open>get\<close> copies the requested keys that are present into a fresh
  object and leaves the store alone; \<open>set\<close> writes every given item.
\<close>

definition storage_get :: "string list \<Rightarrow> storage \<Rightarrow> storage \<times> storage" where
  "storage_get keys st = (st |` set keys, st)"

definition storage_set :: "storage \<Rightarrow> storage \<Rightarrow> storage" where
  "storage_set items st = st ++ items"

text \<open>JavaScript's \<open>a || b\<close> on a looked-up property: a falsy or missing value gives \<open>b\<close>.\<close>

fun truthy :: "jsval option \<Rightarrow> bool" where
  "truthy None = False"
| "truthy (Some (JBool b)) = b"
| "truthy (Some (JStr s)) = (s \<noteq> [])"

definition js_or :: "jsval option \<Rightarrow> jsval \<Rightarrow> jsval" where
  "js_or a b = (if truthy a then the a else b)"

text \<open>
  \<^verbatim>\<open>
  async function saveMode(mode) { await chrome.storage.local.set({ [MODE_KEY]: mode }); }
  async function loadMode() {
    const result = await chrome.storage.local.get([MODE_KEY]);
    return result[MODE_KEY] || MODE_AUTO;
  }
  \<close>
  Both return the store they leave behind next to their value.
\<close>

definition saveMode :: "jsval \<Rightarrow> storage \<Rightarrow> storage" where
  "saveMode mode st = storage_set [MODE_KEY \<mapsto> mode] st"

definition loadMode :: "storage \<Rightarrow> jsval \<times> storage" where
  "loadMode st =
     (let (result, st') = storage_get [MODE_KEY] st
      in (js_or (result MODE_KEY) (JStr MODE_AUTO), st'))"

text \<open>
  The popup script. Its load callback reads the mode with the same \<open>||\<close> default and hands
  it to the popup's own \<open>loadMode(mode)\<close>, which defaults once more and updates the two
  mode buttons:
  \<^verbatim>\<open>
  chrome.storage.local.get([TOGGLE_KEY, MODE_KEY], (result) => { ...
    const mode = result[MODE_KEY] || DEFAULT_MODE;
    loadMode(mode);
  });
  function loadMode(mode) { const currentMode = mode || DEFAULT_MODE; updateModeUI(currentMode); }
  function updateModeUI(mode) {
    if (mode === MODE_AUTO) { autoButton.classList.add('active'); manualButton.classList.remove('active'); }
    else { manualButton.classList.add('active'); autoButton.classList.remove('active'); }
  }
  \<close>
\<close>

record popupUI =
  autoActive :: bool
  manualActive :: bool

definition TOGGLE_KEY :: string where
  "TOGGLE_KEY = ''extension_enabled''"

definition updateModeUI :: "jsval \<Rightarrow> popupUI \<Rightarrow> popupUI" where
  "updateModeUI mode ui =
     (if mode = JStr MODE_AUTO
      then ui\<lparr>autoActive := True, manualActive := False\<rparr>
      else ui\<lparr>manualActive := True, autoActive := False\<rparr>)"

definition popup_loadMode :: "jsval \<Rightarrow> popupUI \<Rightarrow> jsval \<times> popupUI" where
  "popup_loadMode mode ui =
     (let currentMode = js_or (Some mode) (JStr DEFAULT_MODE)
      in (currentMode, updateModeUI currentMode ui))"

definition popup_onLoad :: "storage \<Rightarrow> popupUI \<Rightarrow> (jsval \<times> popupUI) \<times> storage" where
  "popup_onLoad st ui =
     (let (result, st') = storage_get [TOGGLE_KEY, MODE_KEY] st;
          mode = js_or (result MODE_KEY) (JStr DEFAULT_MODE)
      in (popup_loadMode mode ui, st'))"

subsection \<open>String helpers\<close>

text \<open>
  JavaScript strings are modelled by \<open>string\<close>, one \<open>char\<close> per UTF-16 code unit, which
  covers the code units below 256 (ASCII and Latin-1; every key of the country table lies
  there). \<open>trim\<close> strips the white space and line terminators of that range,
  \<open>toLowerCase\<close> maps A-Z and the Latin-1 capitals (U+00C0 to U+00DE without U+00D7) 32
  places up, \<open>startsWith\<close> and \<open>includes\<close> are prefix and substring tests.
\<close>

text \<open>
  White space and line terminators below code unit 256: TAB, LF, VT, FF, CR, SP, NBSP.
\<close>

definition is_space :: "char \<Rightarrow> bool" where
  "is_space c = (of_char c \<in> {9, 10, 11, 12, 13, 32, 160 :: nat})"

definition trim :: "string \<Rightarrow> string" where
  "trim s = rev (dropWhile is_space (rev (dropWhile is_space s)))"

definition toLowerCase_char :: "char \<Rightarrow> char" where
  "toLowerCase_char c =
     (let n = (of_char c :: nat)
      in if (65 \<le> n \<and> n \<le> 90) \<or> (192 \<le> n \<and> n \<le> 214) \<or> (216 \<le> n \<and> n \<le> 222)
         then char_of (n + 32) else c)"

definition toLowerCase :: "string \<Rightarrow> string" where
  "toLowerCase s = map toLowerCase_char s"

fun startsWith :: "string \<Rightarrow> string \<Rightarrow> bool" where
  "startsWith s [] = True"
| "startsWith [] (c # p) = False"
| "startsWith (d # s) (c # p) = (d = c \<and> startsWith s p)"

text \<open>
  \<open>s.includes(t)\<close>: \<open>t\<close> occurs in \<open>s\<close> as a contiguous substring.
\<close>

fun includes_str :: "string \<Rightarrow> string \<Rightarrow> bool" where
  "includes_str [] t = (t = [])"
| "includes_str (d # s) t = (startsWith (d # s) t \<or> includes_str s t)"

subsection \<open>The document and the helpers that edit it\<close>

text \<open>
  The part of the page the helpers touch. A tweet container holds its
  \<open>dataset.flagAdded\<close> marker and, when it has one, the children of its User-Name
  element: \<open>Div href text\<close> is a div with one link (the display-name and handle sections),
  the other elements are what the helpers insert. A button carries the identity of its DOM
  node, a number handed out by \<open>createLocationButton\<close>, because click and mode change
  refer to one particular node. A document is the list of its containers and of the loose
  elements appended to the body, in document order. Insertions and removals are total on
  this tree (the helpers wrap them in try/catch, and nothing can fail here); the one DOM
  call the helpers make outside every try block, the selector query of
  \<open>findHandleSection\<close>, can raise, and the model keeps that exception.
\<close>

datatype element =
    Div string string
  | Button nat string
  | Shimmer
  | ErrorIndicator
  | FlagWrapper locationData

record container =
  flagAdded :: "string option"
  userName :: "element list option"

datatype node = Container container | Loose element

record world =
  document :: "node list"
  mockLocationCache :: cache
  mock_calls :: "string list"
  nextButton :: nat

text \<open>
  \<^verbatim>\<open>
  function extractUsernameFromContainer(container) {
    const userNameContainer = container.querySelector('[data-testid="UserName"], [data-testid="User-Name"]');
    if (!userNameContainer) return null;
    const links = userNameContainer.querySelectorAll('a[href^="/"]');
    for (const link of links) {
      const href = link.getAttribute('href');
      const match = href.match(/^\/([^\/\?]+)/);
      if (match && match[1]) {
        const username = match[1];
        const excludedRoutes = ['home', 'explore', 'notifications', 'messages', 'i', 'compose', 'search', 'settings'];
        if (!excludedRoutes.includes(username) && username.length > 0 && username.length < 20) {
          return username;
        }
      }
    }
    return null;
  }
  \<close>
  \<open>hrefs\<close> lists the links of the children, \<open>href_match\<close> is the regular expression
  (a slash, then the longest non-empty run without slash or question mark),
  \<open>firstUsername\<close> is the loop. The name it returns may hold any character but a slash
  and a question mark, a double quote or a backslash included.
\<close>

definition excludedRoutes :: "string list" where
  "excludedRoutes =
     [''home'', ''explore'', ''notifications'', ''messages'', ''i'', ''compose'', ''search'',
      ''settings'']"

fun hrefs :: "element list \<Rightarrow> string list" where
  "hrefs [] = []"
| "hrefs (Div href txt # els) = href # hrefs els"
| "hrefs (e # els) = hrefs els"

definition href_match :: "string \<Rightarrow> string option" where
  "href_match href =
     (case href of
        [] \<Rightarrow> None
      | c # rest \<Rightarrow>
          if c = CHR ''/'' \<and> takeWhile (\<lambda>d. d \<noteq> CHR ''/'' \<and> d \<noteq> CHR ''?'') rest \<noteq> []
          then Some (takeWhile (\<lambda>d. d \<noteq> CHR ''/'' \<and> d \<noteq> CHR ''?'') rest)
          else None)"

fun firstUsername :: "string list \<Rightarrow> string option" where
  "firstUsername [] = None"
| "firstUsername (href # links) =
     (case href_match href of
        None \<Rightarrow> firstUsername links
      | Some username \<Rightarrow>
          if username \<notin> set excludedRoutes \<and> length username > 0 \<and> length username < 20
          then Some username
          else firstUsername links)"

definition extractUsernameFromContainer :: "container \<Rightarrow> string option" where
  "extractUsernameFromContainer c =
     (case userName c of
        None \<Rightarrow> None
      | Some els \<Rightarrow> firstUsername (filter (\<lambda>h. startsWith h ''/'') (hrefs els)))"

text \<open>
  \<^verbatim>\<open>
  function findHandleSection(container, screenName) {
    return Array.from(container.querySelectorAll('div')).find(div => {
      const link = div.querySelector(`a[href="/${screenName}"]`);
      if (link) {
        const text = link.textContent?.trim();
        return text === `@${screenName}`;
      }
      return false;
    });
  }
  \<close>
  The screen name is pasted into the selector text unescaped. When the name has no double
  quote (0x22), backslash (0x5C), line feed, carriage return, form feed or NUL
  (\<open>selector_literal\<close>), the text between the quotes of the selector is the name itself
  and the selector matches exactly the links with \<open>href = "/" + screenName\<close>
  (\<open>hrefIs\<close>). For any other name the selector text means something else: a double quote
  ends the string early and a raw line break leaves it unterminated, for which
  \<open>querySelector\<close> raises a \<open>SyntaxError\<close>; a backslash starts a CSS escape, so the
  selector looks for another href. What the browser does with such a name is the
  \<open>selector_engine\<close>, a parameter of the model: it either raises or gives the test that
  tells which divs hold a matching link. \<open>raising_engine\<close> is the engine that raises
  for every name it is asked about, which is what every browser does for a name such as
  \<open>quotedName\<close>, the three characters a, double quote, b.

  \<open>findHandleSection\<close> returns the test that singles out the handle section, the first
  child passing it: a div whose link matches the selector and whose trimmed text is
  \<open>"@" + screenName\<close>. The callback of \<open>find\<close> runs the selector on the first div, so
  the call raises as soon as there is a div and the engine raises; with no div among the
  children the selector is never run.
\<close>

datatype dom_error = SyntaxError

type_synonym selector_engine = "string \<Rightarrow> dom_error + (element \<Rightarrow> bool)"

definition selector_literal :: "string \<Rightarrow> bool" where
  "selector_literal screenName =
     list_all (\<lambda>c. c \<noteq> CHR 0x22 \<and> c \<noteq> CHR 0x5C \<and> c \<noteq> CHR 0x0A \<and> c \<noteq> CHR 0x0D
                  \<and> c \<noteq> CHR 0x0C \<and> c \<noteq> CHR 0x00) screenName"

fun isDiv :: "element \<Rightarrow> bool" where
  "isDiv (Div href txt) = True"
| "isDiv e = False"

fun hrefIs :: "string \<Rightarrow> element \<Rightarrow> bool" where
  "hrefIs h (Div href txt) = (href = h)"
| "hrefIs h e = False"

fun linkText :: "element \<Rightarrow> string" where
  "linkText (Div href txt) = txt"
| "linkText e = []"

definition linkSelector :: "selector_engine \<Rightarrow> string \<Rightarrow> dom_error + (element \<Rightarrow> bool)" where
  "linkSelector q screenName =
     (if selector_literal screenName then Inr (hrefIs (''/'' @ screenName)) else q screenName)"

definition findHandleSection ::
  "selector_engine \<Rightarrow> element list \<Rightarrow> string \<Rightarrow> dom_error + (element \<Rightarrow> bool)" where
  "findHandleSection q els screenName =
     (if \<not> list_ex isDiv els then Inr (\<lambda>e. False)
      else
        (case linkSelector q screenName of
           Inl err \<Rightarrow> Inl err
         | Inr hasLink \<Rightarrow>
             Inr (\<lambda>e. isDiv e \<and> hasLink e \<and> trim (linkText e) = ''@'' @ screenName)))"

definition raising_engine :: selector_engine where
  "raising_engine screenName = Inl SyntaxError"

definition quotedName :: string where
  "quotedName = [CHR ''a'', CHR 0x22, CHR ''b'']"

text \<open>
  Both insertions of the helpers are
  \<open>handleSection.parentNode.insertBefore(x, handleSection)\<close> when a handle section was
  found and \<open>userNameContainer.appendChild(x)\<close> otherwise, which \<open>insertBeforeHandle\<close>
  does on the list of children, given the test that singles out the handle section.
\<close>

fun insertBeforeHandle :: "(element \<Rightarrow> bool) \<Rightarrow> element list \<Rightarrow> element \<Rightarrow> element list" where
  "insertBeforeHandle isHandle [] x = [x]"
| "insertBeforeHandle isHandle (e # els) x =
     (if isHandle e then x # e # els else e # insertBeforeHandle isHandle els x)"

definition createLocationButton :: "nat \<Rightarrow> string \<Rightarrow> element" where
  "createLocationButton ident screenName = Button ident screenName"

definition buildBracketedDisplay :: "locationData \<Rightarrow> element" where
  "buildBracketedDisplay displayInfo = FlagWrapper displayInfo"

text \<open>
  \<^verbatim>\<open>
  function addButtonToUsername(container, screenName) {
    if (container.dataset.flagAdded) return;
    container.dataset.flagAdded = 'button';
    const userNameContainer = container.querySelector(...);
    if (!userNameContainer) return;
    const button = createLocationButton(screenName);
    const handleSection = findHandleSection(userNameContainer, screenName);
    ... try { insertBefore(button, handleSection) } or try { appendChild(button) }
  }
  \<close>
  The marker test is JavaScript truthiness: a missing marker and the empty string fail it.
  The result is the container, the next free button identity, and the exception if one
  was raised. \<open>findHandleSection\<close> is called outside the try blocks and after the marker
  is set and the button created: when it raises, the container keeps the marker
  \<open>button\<close>, the button node is never inserted, and the exception leaves the function.
\<close>

definition status_truthy :: "string option \<Rightarrow> bool" where
  "status_truthy st = (case st of None \<Rightarrow> False | Some v \<Rightarrow> v \<noteq> [])"

definition addButtonToUsername ::
  "selector_engine \<Rightarrow> container \<Rightarrow> string \<Rightarrow> nat \<Rightarrow> (container \<times> nat) \<times> dom_error option" where
  "addButtonToUsername q c screenName n =
     (if status_truthy (flagAdded c) then ((c, n), None)
      else
        let c1 = c\<lparr>flagAdded := Some ''button''\<rparr>
        in case userName c1 of
             None \<Rightarrow> ((c1, n), None)
           | Some els \<Rightarrow>
               (let button = createLocationButton n screenName
                in case findHandleSection q els screenName of
                     Inl err \<Rightarrow> ((c1, Suc n), Some err)
                   | Inr isHandle \<Rightarrow>
                       ((c1\<lparr>userName := Some (insertBeforeHandle isHandle els button)\<rparr>, Suc n),
                        None)))"

text \<open>
  \<^verbatim>\<open>
  async function displayLocationInfo(container, screenName, displayInfo) {
    container.dataset.flagAdded = 'processing';
    const flagWrapper = buildBracketedDisplay(displayInfo);
    if (!flagWrapper) { container.dataset.flagAdded = 'failed'; return; }
    const userNameContainer = container.querySelector(...);
    if (!userNameContainer) { container.dataset.flagAdded = 'failed'; return; }
    const handleSection = findHandleSection(userNameContainer, screenName);
    ... try { insertBefore(flagWrapper, handleSection) } or try { appendChild(flagWrapper) }
    container.dataset.flagAdded = 'true';
  }
  \<close>
  The function has no await, so the intermediate marker \<open>processing\<close> is only left
  behind when \<open>findHandleSection\<close>, called outside the try blocks, raises: then no
  wrapper is inserted and the returned promise rejects (the second component of the
  result). \<open>buildBracketedDisplay\<close> always returns an element, here the wrapper tagged
  with the display info it was built from.
\<close>

definition displayLocationInfo ::
  "selector_engine \<Rightarrow> container \<Rightarrow> string \<Rightarrow> locationData \<Rightarrow> container \<times> dom_error option" where
  "displayLocationInfo q c screenName displayInfo =
     (let c1 = c\<lparr>flagAdded := Some ''processing''\<rparr>;
          flagWrapper = buildBracketedDisplay displayInfo
      in case userName c1 of
           None \<Rightarrow> (c1\<lparr>flagAdded := Some ''failed''\<rparr>, None)
         | Some els \<Rightarrow>
             (case findHandleSection q els screenName of
                Inl err \<Rightarrow> (c1, Some err)
              | Inr isHandle \<Rightarrow>
                  (c1\<lparr>userName := Some (insertBeforeHandle isHandle els flagWrapper),
                      flagAdded := Some ''true''\<rparr>, None)))"

text \<open>
  \<^verbatim>\<open>
  async function processUsernamesWithMode(mode, cache = new Map()) {
    mockLocationCache.clear();
    cache.forEach((value, key) => { mockLocationCache.set(key, value); });
    const containers = document.querySelectorAll('article[data-testid="tweet"], [data-testid="UserCell"]');
    for (const container of containers) {
      const screenName = extractUsernameFromContainer(container);
      if (!screenName) continue;
      const status = container.dataset.flagAdded;
      if (status === 'true' || status === 'processing' || status === 'waiting' || status === 'button') continue;
      const cachedLocation = mockLocationCache.get(screenName);
      if (cachedLocation) {
        await displayLocationInfo(container, screenName, cachedLocation);
      } else {
        if (mode === MODE_AUTO) { container.dataset.flagAdded = 'processing'; }
        else { addButtonToUsername(container, screenName); }
      }
    }
  }
  \<close>
  \<open>already_handled\<close> is the status guard, \<open>processContainer\<close> one iteration of the loop,
  \<open>processNodes\<close> the loop, threading the button counter. In auto mode the helper marks
  the container \<open>processing\<close> where the extension would start a fetch; it calls no fetcher
  itself. The \<open>cache\<close> argument is a map of its own, distinct from \<open>mockLocationCache\<close>.
  Nothing in the loop catches: an exception raised for one container ends the pass there,
  with the containers before it processed, that one as the raising helper left it, and
  the ones after it untouched; the pass returns the page and the exception, if any (its
  promise rejects).
\<close>

definition already_handled :: "string option \<Rightarrow> bool" where
  "already_handled st =
     (st = Some ''true'' \<or> st = Some ''processing'' \<or> st = Some ''waiting''
      \<or> st = Some ''button'')"

definition processContainer ::
  "selector_engine \<Rightarrow> string \<Rightarrow> cache \<Rightarrow> nat \<Rightarrow> container
     \<Rightarrow> (container \<times> nat) \<times> dom_error option" where
  "processContainer q mode cache n c =
     (case extractUsernameFromContainer c of
        None \<Rightarrow> ((c, n), None)
      | Some screenName \<Rightarrow>
          if already_handled (flagAdded c) then ((c, n), None)
          else
            (case cache screenName of
               Some cachedLocation \<Rightarrow>
                 (let (c', err) = displayLocationInfo q c screenName cachedLocation
                  in ((c', n), err))
             | None \<Rightarrow>
                 if mode = MODE_AUTO then ((c\<lparr>flagAdded := Some ''processing''\<rparr>, n), None)
                 else addButtonToUsername q c screenName n))"

fun processNodes ::
  "selector_engine \<Rightarrow> string \<Rightarrow> cache \<Rightarrow> nat \<Rightarrow> node list
     \<Rightarrow> (node list \<times> nat) \<times> dom_error option" where
  "processNodes q mode cache n [] = (([], n), None)"
| "processNodes q mode cache n (Loose e # ns) =
     (let ((ns', n'), err) = processNodes q mode cache n ns in ((Loose e # ns', n'), err))"
| "processNodes q mode cache n (Container c # ns) =
     (let ((c', n1), err) = processContainer q mode cache n c
      in case err of
           Some raised \<Rightarrow> ((Container c' # ns, n1), Some raised)
         | None \<Rightarrow>
             (let ((ns', n2), err') = processNodes q mode cache n1 ns
              in ((Container c' # ns', n2), err')))"

definition processUsernamesWithMode ::
  "selector_engine \<Rightarrow> string \<Rightarrow> cache \<Rightarrow> world \<Rightarrow> world \<times> dom_error option" where
  "processUsernamesWithMode q mode cache w =
     (let ((ns, n), err) = processNodes q mode cache (nextButton w) (document w)
      in (w\<lparr>mockLocationCache := cache, document := ns, nextButton := n\<rparr>, err))"

text \<open>
  \<^verbatim>\<open>
  async function handleButtonClick(button, screenName) {
    const shimmer = createLoadingShimmer();
    button.replaceWith(shimmer);
    try {
      const locationInfo = await mockGetUserLocation(screenName);
      if (locationInfo) { shimmer.replaceWith(buildBracketedDisplay(locationInfo)); }
      else { shimmer.replaceWith(createErrorIndicator()); }
    } catch (error) { shimmer.replaceWith(createErrorIndicator()); }
  }
  \<close>
  What the mocked \<open>getUserLocation\<close> answers is an argument: it resolves with a location,
  resolves with null, or rejects. Every call of the mock is recorded in \<open>mock_calls\<close>
  (\<open>mockGetUserLocation.mock.calls\<close>, mirrored by \<open>requestQueueForTest\<close>). The click is
  one step: the shimmer only shows between the call and its answer.
\<close>

datatype fetchOutcome = Resolves "locationData option" | Rejects

definition clickResult :: "fetchOutcome \<Rightarrow> element" where
  "clickResult outcome =
     (case outcome of
        Resolves (Some locationInfo) \<Rightarrow> buildBracketedDisplay locationInfo
      | Resolves None \<Rightarrow> ErrorIndicator
      | Rejects \<Rightarrow> ErrorIndicator)"

fun replaceButton :: "nat \<Rightarrow> element \<Rightarrow> element \<Rightarrow> element" where
  "replaceButton ident new (Button b sn) = (if b = ident then new else Button b sn)"
| "replaceButton ident new e = e"

fun replaceButtonNode :: "nat \<Rightarrow> element \<Rightarrow> node \<Rightarrow> node" where
  "replaceButtonNode ident new (Loose e) = Loose (replaceButton ident new e)"
| "replaceButtonNode ident new (Container c) =
     Container (c\<lparr>userName := map_option (map (replaceButton ident new)) (userName c)\<rparr>)"

definition handleButtonClick :: "nat \<Rightarrow> string \<Rightarrow> fetchOutcome \<Rightarrow> world \<Rightarrow> world" where
  "handleButtonClick button screenName outcome w =
     w\<lparr>document := map (replaceButtonNode button (clickResult outcome)) (document w),
       mock_calls := mock_calls w @ [screenName]\<rparr>"

text \<open>
  \<^verbatim>\<open>
  async function handleModeChange(newMode, cache = new Map()) {
    if (newMode === MODE_AUTO) {
      const buttons = document.querySelectorAll('[data-twitter-location-button]');
      for (const button of buttons) {
        const screenName = button.getAttribute('data-screen-name');
        if (!screenName) continue;
        ... container = first container c with extractUsernameFromContainer(c) === screenName
        if (!container) continue;
        button.remove();
        delete container.dataset.flagAdded;
        const cachedLocation = cache.get(screenName);
        if (cachedLocation) { await displayLocationInfo(container, screenName, cachedLocation); }
        else { container.dataset.flagAdded = 'processing'; }
      }
    } else {
      for (const container of containers) {
        const screenName = extractUsernameFromContainer(container);
        if (!screenName) continue;
        const cachedLocation = cache.get(screenName);
        const flagWrapper = container.querySelector('[data-twitter-flag-wrapper]');
        if (flagWrapper && !cachedLocation) {
          flagWrapper.remove();
          delete container.dataset.flagAdded;
          addButtonToUsername(container, screenName);
        }
      }
    }
  }
  \<close>
  \<open>documentButtons\<close> is the static node list of the first branch, in document order;
  \<open>switchButtonsToAuto\<close> is its loop and \<open>switchNodesToManual\<close> the loop of the second
  branch. Neither loop catches, so an exception of \<open>displayLocationInfo\<close> or
  \<open>addButtonToUsername\<close> ends the handler where it was raised. The handler only reads
  \<open>cache\<close>; the model returns the map next to the world so that a write would show, and
  the exception, if any, beside them.
\<close>

fun buttonsOf :: "element list \<Rightarrow> (nat \<times> string) list" where
  "buttonsOf [] = []"
| "buttonsOf (Button b sn # els) = (b, sn) # buttonsOf els"
| "buttonsOf (e # els) = buttonsOf els"

fun documentButtons :: "node list \<Rightarrow> (nat \<times> string) list" where
  "documentButtons [] = []"
| "documentButtons (Loose e # ns) = buttonsOf [e] @ documentButtons ns"
| "documentButtons (Container c # ns) =
     buttonsOf (case userName c of None \<Rightarrow> [] | Some els \<Rightarrow> els) @ documentButtons ns"

fun isButton :: "nat \<Rightarrow> element \<Rightarrow> bool" where
  "isButton ident (Button b sn) = (b = ident)"
| "isButton ident e = False"

fun removeButton :: "nat \<Rightarrow> node list \<Rightarrow> node list" where
  "removeButton ident [] = []"
| "removeButton ident (Loose e # ns) =
     (if isButton ident e then removeButton ident ns else Loose e # removeButton ident ns)"
| "removeButton ident (Container c # ns) =
     Container (c\<lparr>userName := map_option (filter (\<lambda>e. \<not> isButton ident e)) (userName c)\<rparr>)
       # removeButton ident ns"

fun hasContainerFor :: "string \<Rightarrow> node list \<Rightarrow> bool" where
  "hasContainerFor screenName [] = False"
| "hasContainerFor screenName (Loose e # ns) = hasContainerFor screenName ns"
| "hasContainerFor screenName (Container c # ns) =
     (extractUsernameFromContainer c = Some screenName \<or> hasContainerFor screenName ns)"

fun updateFirstContainer ::
  "string \<Rightarrow> (container \<Rightarrow> container \<times> dom_error option) \<Rightarrow> node list
     \<Rightarrow> node list \<times> dom_error option" where
  "updateFirstContainer screenName f [] = ([], None)"
| "updateFirstContainer screenName f (Loose e # ns) =
     (let (ns', err) = updateFirstContainer screenName f ns in (Loose e # ns', err))"
| "updateFirstContainer screenName f (Container c # ns) =
     (if extractUsernameFromContainer c = Some screenName
      then (let (c', err) = f c in (Container c' # ns, err))
      else (let (ns', err) = updateFirstContainer screenName f ns in (Container c # ns', err)))"

definition switchContainerToAuto ::
  "selector_engine \<Rightarrow> cache \<Rightarrow> string \<Rightarrow> container \<Rightarrow> container \<times> dom_error option" where
  "switchContainerToAuto q cache screenName c =
     (let c0 = c\<lparr>flagAdded := None\<rparr>
      in case cache screenName of
           Some cachedLocation \<Rightarrow> displayLocationInfo q c0 screenName cachedLocation
         | None \<Rightarrow> (c0\<lparr>flagAdded := Some ''processing''\<rparr>, None))"

fun switchButtonsToAuto ::
  "selector_engine \<Rightarrow> cache \<Rightarrow> (nat \<times> string) list \<Rightarrow> node list
     \<Rightarrow> node list \<times> dom_error option" where
  "switchButtonsToAuto q cache [] ns = (ns, None)"
| "switchButtonsToAuto q cache ((button, screenName) # buttons) ns =
     (if screenName = [] then switchButtonsToAuto q cache buttons ns
      else if \<not> hasContainerFor screenName ns then switchButtonsToAuto q cache buttons ns
      else
        (let (ns', err) =
               updateFirstContainer screenName (switchContainerToAuto q cache screenName)
                 (removeButton button ns)
         in case err of
              Some raised \<Rightarrow> (ns', Some raised)
            | None \<Rightarrow> switchButtonsToAuto q cache buttons ns'))"

fun isFlagWrapper :: "element \<Rightarrow> bool" where
  "isFlagWrapper (FlagWrapper d) = True"
| "isFlagWrapper e = False"

fun removeFirstFlagWrapper :: "element list \<Rightarrow> element list" where
  "removeFirstFlagWrapper [] = []"
| "removeFirstFlagWrapper (e # els) =
     (if isFlagWrapper e then els else e # removeFirstFlagWrapper els)"

definition switchContainerToManual ::
  "selector_engine \<Rightarrow> cache \<Rightarrow> nat \<Rightarrow> container \<Rightarrow> (container \<times> nat) \<times> dom_error option" where
  "switchContainerToManual q cache n c =
     (case extractUsernameFromContainer c of
        None \<Rightarrow> ((c, n), None)
      | Some screenName \<Rightarrow>
          (case userName c of
             None \<Rightarrow> ((c, n), None)
           | Some els \<Rightarrow>
               if list_ex isFlagWrapper els \<and> cache screenName = None
               then addButtonToUsername q
                      (c\<lparr>userName := Some (removeFirstFlagWrapper els), flagAdded := None\<rparr>)
                      screenName n
               else ((c, n), None)))"

fun switchNodesToManual ::
  "selector_engine \<Rightarrow> cache \<Rightarrow> nat \<Rightarrow> node list \<Rightarrow> (node list \<times> nat) \<times> dom_error option" where
  "switchNodesToManual q cache n [] = (([], n), None)"
| "switchNodesToManual q cache n (Loose e # ns) =
     (let ((ns', n'), err) = switchNodesToManual q cache n ns in ((Loose e # ns', n'), err))"
| "switchNodesToManual q cache n (Container c # ns) =
     (let ((c', n1), err) = switchContainerToManual q cache n c
      in case err of
           Some raised \<Rightarrow> ((Container c' # ns, n1), Some raised)
         | None \<Rightarrow>
             (let ((ns', n2), err') = switchNodesToManual q cache n1 ns
              in ((Container c' # ns', n2), err')))"

definition handleModeChange ::
  "selector_engine \<Rightarrow> string \<Rightarrow> cache \<Rightarrow> world \<Rightarrow> (cache \<times> world) \<times> dom_error option" where
  "handleModeChange q newMode cache w =
     (if newMode = MODE_AUTO
      then
        (let (ns, err) = switchButtonsToAuto q cache (documentButtons (document w)) (document w)
         in ((cache, w\<lparr>document := ns\<rparr>), err))
      else
        (let ((ns, n), err) = switchNodesToManual q cache (nextButton w) (document w)
         in ((cache, w\<lparr>document := ns, nextButton := n\<rparr>), err)))"




text \<open>
  The tweet container the tests build: a display-name div and a handle div, both linking
  to the profile, and no marker.
\<close>

definition createMockTwitterContainer :: "string \<Rightarrow> container" where
  "createMockTwitterContainer screenName =
     \<lparr>flagAdded = None,
      userName = Some [Div (''/'' @ screenName) ''Display Name'',
                       Div (''/'' @ screenName) (''@'' @ screenName)]\<rparr>"


text \<open>
  The children of a container's User-Name element (none when it has no such element), and
  the pages all of whose screen names the selector takes literally, as the names the
  tests generate (letters, digits and underscore) are.
\<close>

definition children :: "container \<Rightarrow> element list" where
  "children c = (case userName c of None \<Rightarrow> [] | Some els \<Rightarrow> els)"

definition names_literal :: "node list \<Rightarrow> bool" where
  "names_literal ns =
     list_all (\<lambda>nd. case nd of
                       Loose e \<Rightarrow> True
                     | Container c \<Rightarrow>
                         (case extractUsernameFromContainer c of
                            None \<Rightarrow> True
                          | Some screenName \<Rightarrow> selector_literal screenName)) ns"

text \<open>
  The object the mocked \<open>getUserLocation\<close> of the tests resolves with, as a cache entry
  that expires at time 5000; the flag emoji are written by their two letters.
\<close>

definition mockLocation :: locationData where
  "mockLocation =
     \<lparr>location = ''United States'', locationFlag = ''US'', source = ''United States'',
      sourceFlag = ''US'', sourceCountry = ''United States'', locationAccurate = True,
      isVpn = False, learnMoreUrl = None, expiry = Some 5000\<rparr>"

subsection \<open>countryFlags.js\<close>

text \<open>
  \<open>COUNTRY_FLAGS[name]\<close> is a property read on a plain object: an own property gives
  its code, and a name that is no own property is looked up on \<open>Object.prototype\<close>.
  A property value is a string (by code units), a function (only its \<open>length\<close> matters)
  or the object \<open>Object.prototype\<close> itself (what \<open>__proto__\<close> reads). A \<open>TypeError\<close>
  is the left injection, \<open>null\<close> is \<open>Inr None\<close>.
\<close>

datatype js_error = TypeError

datatype propval = PStr "nat list" | PFun nat | PObj

text \<open>
  The properties every plain object inherits from \<open>Object.prototype\<close> in a browser,
  each a function with its \<open>length\<close>, and the accessor \<open>__proto__\<close>.
\<close>

definition Object_prototype :: "string \<Rightarrow> propval option" where
  "Object_prototype name =
     (if name = ''constructor'' then Some (PFun 1)
      else if name = ''__defineGetter__'' then Some (PFun 2)
      else if name = ''__defineSetter__'' then Some (PFun 2)
      else if name = ''__lookupGetter__'' then Some (PFun 1)
      else if name = ''__lookupSetter__'' then Some (PFun 1)
      else if name = ''hasOwnProperty'' then Some (PFun 1)
      else if name = ''isPrototypeOf'' then Some (PFun 1)
      else if name = ''propertyIsEnumerable'' then Some (PFun 1)
      else if name = ''toLocaleString'' then Some (PFun 0)
      else if name = ''toString'' then Some (PFun 0)
      else if name = ''valueOf'' then Some (PFun 0)
      else if name = ''__proto__'' then Some PObj
      else None)"

definition js_get :: "(string \<times> string) list \<Rightarrow> string \<Rightarrow> propval option" where
  "js_get obj name =
     (case map_of obj name of
        Some v \<Rightarrow> Some (PStr (map of_char v))
      | None \<Rightarrow> Object_prototype name)"

text \<open>
  JavaScript truthiness of a property read: undefined and the empty string are falsy.
\<close>

fun truthy_prop :: "propval option \<Rightarrow> bool" where
  "truthy_prop None = False"
| "truthy_prop (Some (PStr u)) = (u \<noteq> [])"
| "truthy_prop (Some (PFun n)) = True"
| "truthy_prop (Some PObj) = True"

text \<open>
  The table, in source order (\<open>Object.entries\<close> enumerates string keys in insertion
  order; no key occurs twice).
\<close>

definition COUNTRY_FLAGS :: "(string \<times> string) list" where
  "COUNTRY_FLAGS = [
    (''Afghanistan'', ''AF''), (''Albania'', ''AL''), (''Algeria'', ''DZ''),
    (''Andorra'', ''AD''), (''Angola'', ''AO''), (''Antigua and Barbuda'', ''AG''),
    (''Argentina'', ''AR''), (''Armenia'', ''AM''), (''Australia'', ''AU''),
    (''Austria'', ''AT''), (''Azerbaijan'', ''AZ''), (''Bahamas'', ''BS''),
    (''Bahrain'', ''BH''), (''Bangladesh'', ''BD''), (''Barbados'', ''BB''),
    (''Belarus'', ''BY''), (''Belgium'', ''BE''), (''Belize'', ''BZ''), (''Benin'', ''BJ''),
    (''Bhutan'', ''BT''), (''Bolivia'', ''BO''), (''Bosnia and Herzegovina'', ''BA''),
    (''Botswana'', ''BW''), (''Brazil'', ''BR''), (''Brunei'', ''BN''), (''Bulgaria'', ''BG''),
    (''Burkina Faso'', ''BF''), (''Burundi'', ''BI''), (''Cabo Verde'', ''CV''),
    (''Cambodia'', ''KH''), (''Cameroon'', ''CM''), (''Canada'', ''CA''),
    (''Central African Republic'', ''CF''), (''Chad'', ''TD''), (''Chile'', ''CL''),
    (''China'', ''CN''), (''Colombia'', ''CO''), (''Comoros'', ''KM''), (''Congo'', ''CG''),
    (''Democratic Republic of the Congo'', ''CD''), (''DR Congo'', ''CD''),
    (''Costa Rica'', ''CR''),
    (''C'' @ [CHR 0xF4] @ ''te d'' @ [CHR 0x27] @ ''Ivoire'', ''CI''),
    (''Ivory Coast'', ''CI''), (''Croatia'', ''HR''), (''Cuba'', ''CU''), (''Cyprus'', ''CY''),
    (''Czechia'', ''CZ''), (''Czech Republic'', ''CZ''), (''Denmark'', ''DK''),
    (''Djibouti'', ''DJ''), (''Dominica'', ''DM''), (''Dominican Republic'', ''DO''),
    (''Ecuador'', ''EC''), (''Egypt'', ''EG''), (''El Salvador'', ''SV''),
    (''Equatorial Guinea'', ''GQ''), (''Eritrea'', ''ER''), (''Estonia'', ''EE''),
    (''Eswatini'', ''SZ''), (''Ethiopia'', ''ET''), (''Fiji'', ''FJ''), (''Finland'', ''FI''),
    (''France'', ''FR''), (''Gabon'', ''GA''), (''Gambia'', ''GM''), (''Georgia'', ''GE''),
    (''Germany'', ''DE''), (''Ghana'', ''GH''), (''Greece'', ''GR''), (''Grenada'', ''GD''),
    (''Guatemala'', ''GT''), (''Guinea'', ''GN''), (''Guinea-Bissau'', ''GW''),
    (''Guyana'', ''GY''), (''Haiti'', ''HT''), (''Honduras'', ''HN''), (''Hungary'', ''HU''),
    (''Iceland'', ''IS''), (''India'', ''IN''), (''Indonesia'', ''ID''), (''Iran'', ''IR''),
    (''Iraq'', ''IQ''), (''Ireland'', ''IE''), (''Israel'', ''IL''), (''Italy'', ''IT''),
    (''Jamaica'', ''JM''), (''Japan'', ''JP''), (''Jordan'', ''JO''), (''Kazakhstan'', ''KZ''),
    (''Kenya'', ''KE''), (''Kiribati'', ''KI''), (''Kosovo'', ''XK''), (''Kuwait'', ''KW''),
    (''Kyrgyzstan'', ''KG''), (''Laos'', ''LA''), (''Latvia'', ''LV''), (''Lebanon'', ''LB''),
    (''Lesotho'', ''LS''), (''Liberia'', ''LR''), (''Libya'', ''LY''),
    (''Liechtenstein'', ''LI''), (''Lithuania'', ''LT''), (''Luxembourg'', ''LU''),
    (''Madagascar'', ''MG''), (''Malawi'', ''MW''), (''Malaysia'', ''MY''),
    (''Maldives'', ''MV''), (''Mali'', ''ML''), (''Malta'', ''MT''),
    (''Marshall Islands'', ''MH''), (''Mauritania'', ''MR''), (''Mauritius'', ''MU''),
    (''Mexico'', ''MX''), (''Micronesia'', ''FM''), (''Moldova'', ''MD''),
    (''Monaco'', ''MC''), (''Mongolia'', ''MN''), (''Montenegro'', ''ME''),
    (''Morocco'', ''MA''), (''Mozambique'', ''MZ''), (''Myanmar'', ''MM''),
    (''Namibia'', ''NA''), (''Nauru'', ''NR''), (''Nepal'', ''NP''), (''Netherlands'', ''NL''),
    (''New Zealand'', ''NZ''), (''Nicaragua'', ''NI''), (''Niger'', ''NE''),
    (''Nigeria'', ''NG''), (''North Korea'', ''KP''), (''North Macedonia'', ''MK''),
    (''Norway'', ''NO''), (''Oman'', ''OM''), (''Pakistan'', ''PK''), (''Palau'', ''PW''),
    (''Palestine'', ''PS''), (''Panama'', ''PA''), (''Papua New Guinea'', ''PG''),
    (''Paraguay'', ''PY''), (''Peru'', ''PE''), (''Philippines'', ''PH''),
    (''Poland'', ''PL''), (''Portugal'', ''PT''), (''Qatar'', ''QA''), (''Romania'', ''RO''),
    (''Russia'', ''RU''), (''Rwanda'', ''RW''), (''Saint Kitts and Nevis'', ''KN''),
    (''Saint Lucia'', ''LC''), (''Saint Vincent and the Grenadines'', ''VC''),
    (''Samoa'', ''WS''), (''San Marino'', ''SM''), (''Sao Tome and Principe'', ''ST''),
    (''Saudi Arabia'', ''SA''), (''Senegal'', ''SN''), (''Serbia'', ''RS''),
    (''Seychelles'', ''SC''), (''Sierra Leone'', ''SL''), (''Singapore'', ''SG''),
    (''Slovakia'', ''SK''), (''Slovenia'', ''SI''), (''Solomon Islands'', ''SB''),
    (''Somalia'', ''SO''), (''South Africa'', ''ZA''), (''South Korea'', ''KR''),
    (''Korea'', ''KR''), (''South Sudan'', ''SS''), (''Spain'', ''ES''),
    (''Sri Lanka'', ''LK''), (''Sudan'', ''SD''), (''Suriname'', ''SR''), (''Sweden'', ''SE''),
    (''Switzerland'', ''CH''), (''Syria'', ''SY''), (''Taiwan'', ''TW''),
    (''Tajikistan'', ''TJ''), (''Tanzania'', ''TZ''), (''Thailand'', ''TH''),
    (''Timor-Leste'', ''TL''), (''East Timor'', ''TL''), (''Togo'', ''TG''),
    (''Tonga'', ''TO''), (''Trinidad and Tobago'', ''TT''), (''Tunisia'', ''TN''),
    (''Turkey'', ''TR''), (''Turkmenistan'', ''TM''), (''Tuvalu'', ''TV''),
    (''Uganda'', ''UG''), (''Ukraine'', ''UA''), (''United Arab Emirates'', ''AE''),
    (''UAE'', ''AE''), (''United Kingdom'', ''GB''), (''UK'', ''GB''),
    (''Great Britain'', ''GB''), (''Britain'', ''GB''), (''United States'', ''US''),
    (''USA'', ''US''), (''America'', ''US''), (''Uruguay'', ''UY''), (''Uzbekistan'', ''UZ''),
    (''Vanuatu'', ''VU''), (''Vatican City'', ''VA''), (''Venezuela'', ''VE''),
    (''Vietnam'', ''VN''), (''Yemen'', ''YE''), (''Zambia'', ''ZM''), (''Zimbabwe'', ''ZW''),
    (''Europe'', ''EU''), (''European Union'', ''EU''), (''EU'', ''EU''),
    (''Hong Kong'', ''HK''), (''Macau'', ''MO''), (''Puerto Rico'', ''PR''),
    (''England'', ''ENG''), (''Scotland'', ''SCT''), (''Wales'', ''WAL''),
    (''Northern Ireland'', ''GB'')
  ]"

definition SPECIAL_FLAG_EMOJIS :: "(string \<times> string) list" where
  "SPECIAL_FLAG_EMOJIS =
     [(''XK'', ''XK''), (''EU'', ''EU''), (''ENG'', ''gbeng''), (''SCT'', ''gbsct''),
      (''WAL'', ''gbwls'')]"

text \<open>
  \<^verbatim>\<open>
  function codeToFlag(code) {
    if (code.length !== 2) return null;
    const base = 0x1F1E6;
    const A = 'A'.charCodeAt(0);
    const c1 = code.charCodeAt(0) - A;
    const c2 = code.charCodeAt(1) - A;
    if (c1 < 0 || c1 > 25 || c2 < 0 || c2 > 25) return null;
    return String.fromCodePoint(base + c1, base + c2);
  }
  \<close>
  \<open>String.fromCodePoint(0x1F1E6 + c)\<close> is the surrogate pair \<open>0xD83C, 0xDDE6 + c\<close> for
  \<open>c\<close> up to 25. On a function \<open>code.length\<close> is its number of parameters and
  \<open>code.charCodeAt\<close> is undefined, so calling it raises a \<open>TypeError\<close>; on
  \<open>Object.prototype\<close> \<open>code.length\<close> is undefined, which is not 2.
\<close>

definition regional_indicator :: "nat \<Rightarrow> nat list" where
  "regional_indicator c = [0xD83C, 0xDDE6 + c]"

fun codeToFlag :: "propval \<Rightarrow> js_error + propval option" where
  "codeToFlag (PStr code) =
     (if length code \<noteq> 2 then Inr None
      else let c1 = int (code ! 0) - 65; c2 = int (code ! 1) - 65
           in if c1 < 0 \<or> c1 > 25 \<or> c2 < 0 \<or> c2 > 25 then Inr None
              else Inr (Some (PStr (regional_indicator (nat c1) @ regional_indicator (nat c2)))))"
| "codeToFlag (PFun n) = (if n \<noteq> 2 then Inr None else Inl TypeError)"
| "codeToFlag PObj = Inr None"

text \<open>
  \<open>SPECIAL_FLAG_EMOJIS[code] || codeToFlag(code)\<close>. The property key of a code that is
  not a string is its string form (\<open>function ...() { [native code] }\<close>,
  \<open>[object Object]\<close>), which names no property, so the read is undefined.
\<close>

definition flagForCode :: "propval \<Rightarrow> js_error + propval option" where
  "flagForCode code =
     (let special = (case code of
                       PStr u \<Rightarrow> js_get SPECIAL_FLAG_EMOJIS (map char_of u)
                     | _ \<Rightarrow> None)
      in if truthy_prop special then Inr special else codeToFlag code)"

text \<open>
  \<^verbatim>\<open>
  function getCountryFlag(countryName) {
    if (!countryName) return null;
    const name = countryName.trim();
    if (COUNTRY_FLAGS[name]) {
      const code = COUNTRY_FLAGS[name];
      return SPECIAL_FLAG_EMOJIS[code] || codeToFlag(code);
    }
    const lower = name.toLowerCase();
    for (const [key, code] of Object.entries(COUNTRY_FLAGS)) {
      if (key.toLowerCase() === lower || key.toLowerCase().includes(lower) || lower.includes(key.toLowerCase())) {
        return SPECIAL_FLAG_EMOJIS[code] || codeToFlag(code);
      }
    }
    return null;
  }
  \<close>
  \<open>fallback\<close> is the loop over the own entries; an absent argument is \<open>None\<close>.
\<close>

fun fallback :: "(string \<times> string) list \<Rightarrow> string \<Rightarrow> js_error + propval option" where
  "fallback [] lower = Inr None"
| "fallback ((key, code) # entries) lower =
     (if toLowerCase key = lower \<or> includes_str (toLowerCase key) lower \<or> includes_str lower (toLowerCase key)
      then flagForCode (PStr (map of_char code))
      else fallback entries lower)"

definition getCountryFlag :: "string option \<Rightarrow> js_error + propval option" where
  "getCountryFlag countryName =
     (case countryName of
        None \<Rightarrow> Inr None
      | Some cn \<Rightarrow>
          if cn = [] then Inr None
          else let name = trim cn
               in if truthy_prop (js_get COUNTRY_FLAGS name)
                  then flagForCode (the (js_get COUNTRY_FLAGS name))
                  else fallback COUNTRY_FLAGS (toLowerCase name))"

subsection \<open>Request scheduler and result cache\<close>

text \<open>
  The scheduler itself (the queue, the rate limiter and the per-key state of content.js)
  is not among the repository's files; only the test helpers that call into its mock are.
  The definitions of this subsection are therefore written from the specification, section
  by section, each marked as such. Keys are strings, values are opaque (\<open>'v\<close>), time is
  an integer count of milliseconds supplied with every event (the injected clock).
\<close>

text \<open>
Modelled from the spec: the per-key state of the ProcessingStateTracker (section 3),
  "one of {Idle, Queued, InFlight, Done, Failed}"; the tracker is not in the sources.
\<close>

datatype ProcessingState = Idle | Queued | InFlight | Done | Failed

text \<open>
Modelled from the spec: the negative outcomes of the Fetcher (sections 6 and 7): timeout,
  transport failure, nothing to report; the Fetcher is external and not in the sources.
\<close>

datatype failure = Timeout | TransportFailure | NoResult

text \<open>
Modelled from the spec: the Fetcher's result (section 6), "one of Success(value),
  Throttled(resetAt), Failure(reason)".
\<close>

datatype 'v FetchResult = Success 'v | Throttled int | Failure failure

text \<open>
Modelled from the spec: the recognised options (section 6), and the policy for a throttled
  key that section 4.4 leaves to configuration ("requeue ... or resolve with null per
  configured policy"); the scheduler's constants are not in the sources.
\<close>

record Config =
  minInterval :: int
  maxConcurrent :: nat
  ttl :: int
  fetchTimeout :: int
  persistDebounce :: int
  requeueOnThrottle :: bool

text \<open>
Modelled from the spec: the defaults of the reference behaviour (sections 4.1, 4.2,
  4.4): minInterval 2000 ms, maxConcurrent 2, fetch timeout 10 s, persist debounce 5 s; the
  time to live is the 30 days of \<open>saveCacheEntry\<close>.
\<close>

definition default_config :: Config where
  "default_config =
     \<lparr>minInterval = 2000, maxConcurrent = 2, ttl = 2592000000, fetchTimeout = 10000,
      persistDebounce = 5000, requeueOnThrottle = False\<rparr>"

text \<open>
Modelled from the spec: the CacheEntry of section 3, "{ value, expiresAt }", where
  \<open>expiresAt\<close> may be missing.
\<close>

record 'v CacheEntry =
  val :: 'v
  expiresAt :: "int option"

text \<open>
Modelled from the spec: the QueueItem of section 3, "{ key, enqueuedAt, resultChannel }";
  the result channel is the list of futures attached to the key in the scheduler state.
\<close>

record QueueItem =
  key :: string
  enqueuedAt :: int

text \<open>
Modelled from the spec: the RateLimiterState of section 3,
  "{ lastDispatchAt, inFlightCount, blockedUntil }".
\<close>

record RateLimiterState =
  lastDispatchAt :: int
  inFlightCount :: int
  blockedUntil :: "int option"

text \<open>
Modelled from the spec: the state owned by the RequestScheduler (sections 2 and 4): the
  result cache, the FIFO queue, the tracker, the limiter, the futures attached to each key's
  pending lookup, the value each resolved future got (\<open>None\<close> inside is null), and the next
  future to hand out. \<open>fetcherCalls\<close> logs every Fetcher invocation with its start time,
  newest first, and \<open>pending\<close> lists the keys whose Fetcher call has no response yet.
\<close>

record 'v Scheduler =
  rcache :: "string \<rightharpoonup> 'v CacheEntry"
  queue :: "QueueItem list"
  tracker :: "string \<Rightarrow> ProcessingState"
  limiter :: RateLimiterState
  attached :: "string \<Rightarrow> nat list"
  resolved :: "nat \<rightharpoonup> 'v option"
  nextFuture :: nat
  fetcherCalls :: "(string \<times> int) list"
  pending :: "string list"

text \<open>
Modelled from the spec: ResultCache.get (section 4.1), "returns the cached value only if
  present and expiresAt > now; otherwise reports a miss"; \<open>None\<close> is the miss.
\<close>

definition cache_get :: "(string \<rightharpoonup> 'v CacheEntry) \<Rightarrow> int \<Rightarrow> string \<Rightarrow> 'v option" where
  "cache_get c now k =
     (case c k of
        None \<Rightarrow> None
      | Some e \<Rightarrow>
          (case expiresAt e of
             None \<Rightarrow> None
           | Some t \<Rightarrow> if t > now then Some (val e) else None))"

text \<open>
Modelled from the spec: ResultCache.set (section 4.1), "stores {value, expiresAt: now + ttl},
  unconditionally overwriting any prior entry".
\<close>

definition cache_set ::
  "(string \<rightharpoonup> 'v CacheEntry) \<Rightarrow> int \<Rightarrow> string \<Rightarrow> 'v \<Rightarrow> int \<Rightarrow> (string \<rightharpoonup> 'v CacheEntry)" where
  "cache_set c now k v life = c(k \<mapsto> \<lparr>val = v, expiresAt = Some (now + life)\<rparr>)"

text \<open>
Modelled from the spec: the answer of RateLimiter.tryAcquire (section 4.2),
  "granted | mustWaitUntil(t)"; a grant carries the limiter state after it.
\<close>

datatype acquire = Granted RateLimiterState | MustWaitUntil int

text \<open>
Modelled from the spec: RateLimiter.tryAcquire (section 4.2): "grants immediately if
  inFlightCount < maxConcurrent AND now - lastDispatchAt >= minInterval AND (blockedUntil ==
  null OR now >= blockedUntil); otherwise returns the earliest time a retry might succeed".
  A grant records the dispatch time and counts the lookup as in flight.
\<close>

definition tryAcquire :: "Config \<Rightarrow> int \<Rightarrow> RateLimiterState \<Rightarrow> acquire" where
  "tryAcquire cfg now rl =
     (if inFlightCount rl < int (maxConcurrent cfg)
         \<and> now - lastDispatchAt rl \<ge> minInterval cfg
         \<and> (case blockedUntil rl of None \<Rightarrow> True | Some b \<Rightarrow> now \<ge> b)
      then Granted (rl\<lparr>lastDispatchAt := now, inFlightCount := inFlightCount rl + 1\<rparr>)
      else MustWaitUntil
             (max now (max (lastDispatchAt rl + minInterval cfg)
                           (case blockedUntil rl of None \<Rightarrow> now | Some b \<Rightarrow> b))))"

text \<open>
Modelled from the spec: RateLimiter.release (section 4.2), "decrements inFlightCount after a
  dispatched lookup completes".
\<close>

definition release :: "RateLimiterState \<Rightarrow> RateLimiterState" where
  "release rl = rl\<lparr>inFlightCount := inFlightCount rl - 1\<rparr>"

text \<open>
Modelled from the spec: RateLimiter.trip (section 4.2), "sets blockedUntil, which suppresses all
  dispatches ... until that time passes".
\<close>

definition trip :: "int \<Rightarrow> RateLimiterState \<Rightarrow> RateLimiterState" where
  "trip until rl = rl\<lparr>blockedUntil := Some until\<rparr>"

text \<open>
Modelled from the spec: ProcessingStateTracker.tryClaim (section 4.3), "transitions
  Idle -> Queued; returns alreadyActive if the key is already Queued or InFlight"; \<open>None\<close> is
  alreadyActive.
\<close>

definition tryClaim :: "(string \<Rightarrow> ProcessingState) \<Rightarrow> string \<Rightarrow> (string \<Rightarrow> ProcessingState) option" where
  "tryClaim tr k = (case tr k of Idle \<Rightarrow> Some (tr(k := Queued)) | _ \<Rightarrow> None)"

text \<open>
Modelled from the spec: ProcessingStateTracker.markInFlight (section 4.3).
\<close>

definition markInFlight :: "(string \<Rightarrow> ProcessingState) \<Rightarrow> string \<Rightarrow> (string \<Rightarrow> ProcessingState)" where
  "markInFlight tr k = tr(k := InFlight)"

text \<open>
Modelled from the spec: ProcessingStateTracker.markDone (section 4.3): the key becomes Done
  and is released "back to Idle ... immediately, once the UI-facing consumer has observed the
  result", which is when its futures are resolved.
\<close>

definition markDone :: "(string \<Rightarrow> ProcessingState) \<Rightarrow> string \<Rightarrow> (string \<Rightarrow> ProcessingState)" where
  "markDone tr k = (tr(k := Done))(k := Idle)"

text \<open>
Modelled from the spec: ProcessingStateTracker.markFailed (section 4.3), as markDone with
  Failed.
\<close>

definition markFailed :: "(string \<Rightarrow> ProcessingState) \<Rightarrow> string \<Rightarrow> (string \<Rightarrow> ProcessingState)" where
  "markFailed tr k = (tr(k := Failed))(k := Idle)"

text \<open>
Modelled from the spec: "resolve all attached futures with the value" (section 4.4).
\<close>

definition resolve_all :: "nat list \<Rightarrow> 'v option \<Rightarrow> (nat \<rightharpoonup> 'v option) \<Rightarrow> (nat \<rightharpoonup> 'v option)" where
  "resolve_all fs r m = foldl (\<lambda>m f. m(f \<mapsto> r)) m fs"

text \<open>
Modelled from the spec: RequestScheduler.submit (section 4.4): a cache hit resolves the new
  future at once "without touching the queue or state tracker"; on a miss the key is claimed,
  and the future is attached to the pending lookup; only a successful claim enqueues a
  QueueItem. The result is the future and the new state.
\<close>

definition submit :: "int \<Rightarrow> string \<Rightarrow> 'v Scheduler \<Rightarrow> nat \<times> 'v Scheduler" where
  "submit now k s =
     (let f = nextFuture s; s1 = s\<lparr>nextFuture := f + 1\<rparr>
      in case cache_get (rcache s) now k of
           Some v \<Rightarrow> (f, s1\<lparr>resolved := (resolved s)(f \<mapsto> Some v)\<rparr>)
         | None \<Rightarrow>
             (case tryClaim (tracker s) k of
                None \<Rightarrow> (f, s1\<lparr>attached := (attached s)(k := attached s k @ [f])\<rparr>)
              | Some tr \<Rightarrow>
                  (f, s1\<lparr>tracker := tr,
                         queue := queue s @ [\<lparr>key = k, enqueuedAt = now\<rparr>],
                         attached := (attached s)(k := attached s k @ [f])\<rparr>)))"

text \<open>
Modelled from the spec: one round of the drain loop (section 4.4): it "peeks the queue head, asks
  RateLimiter for permission; if denied, sleeps ...; if granted, dequeues, marks InFlight,
  invokes the external Fetcher".
\<close>

definition drain :: "Config \<Rightarrow> int \<Rightarrow> 'v Scheduler \<Rightarrow> 'v Scheduler" where
  "drain cfg now s =
     (case queue s of
        [] \<Rightarrow> s
      | item # rest \<Rightarrow>
          (case tryAcquire cfg now (limiter s) of
             MustWaitUntil t \<Rightarrow> s
           | Granted rl \<Rightarrow>
               s\<lparr>queue := rest,
                 tracker := markInFlight (tracker s) (key item),
                 limiter := rl,
                 fetcherCalls := (key item, now) # fetcherCalls s,
                 pending := key item # pending s\<rparr>))"

text \<open>
Modelled from the spec: the completion of a Fetcher call (section 4.4): release, then on
  success "ResultCache.set, markDone, resolve all attached futures with the value"; on timeout
  or transport failure "markFailed, resolve attached futures with null; do not cache"; on a
  throttling signal "RateLimiter.trip(resetTimestamp), requeue the key at the front of the
  queue ... or resolve with null per configured policy". A response for a key with no call in
  flight changes nothing.
\<close>

definition complete :: "Config \<Rightarrow> int \<Rightarrow> string \<Rightarrow> 'v FetchResult \<Rightarrow> 'v Scheduler \<Rightarrow> 'v Scheduler" where
  "complete cfg now k r s =
     (if tracker s k \<noteq> InFlight then s
      else
        let s1 = s\<lparr>limiter := release (limiter s), pending := remove1 k (pending s)\<rparr>
        in case r of
             Success v \<Rightarrow>
               s1\<lparr>rcache := cache_set (rcache s) now k v (ttl cfg),
                  tracker := markDone (tracker s) k,
                  resolved := resolve_all (attached s k) (Some v) (resolved s),
                  attached := (attached s)(k := [])\<rparr>
           | Failure why \<Rightarrow>
               s1\<lparr>tracker := markFailed (tracker s) k,
                  resolved := resolve_all (attached s k) None (resolved s),
                  attached := (attached s)(k := [])\<rparr>
           | Throttled resetAt \<Rightarrow>
               (let s2 = s1\<lparr>limiter := trip resetAt (limiter s1)\<rparr>
                in if requeueOnThrottle cfg
                   then s2\<lparr>queue := \<lparr>key = k, enqueuedAt = now\<rparr> # queue s,
                           tracker := (tracker s)(k := Queued)\<rparr>
                   else s2\<lparr>tracker := markFailed (tracker s) k,
                           resolved := resolve_all (attached s k) None (resolved s),
                           attached := (attached s)(k := [])\<rparr>))"

text \<open>
Modelled from the spec: what drives the scheduler (sections 4.4 and 6): a submit, the explicit
  trigger of the UI layer (triggerFetch, which submits that key), a round of the drain loop,
  and the Fetcher's response for a key. Each event comes with the clock's time.
\<close>

datatype 'v event = Submit string | TriggerFetch string | Drain | Complete string "'v FetchResult"

fun step :: "Config \<Rightarrow> 'v Scheduler \<Rightarrow> int \<times> 'v event \<Rightarrow> 'v Scheduler" where
  "step cfg s (now, Submit k) = snd (submit now k s)"
| "step cfg s (now, TriggerFetch k) = snd (submit now k s)"
| "step cfg s (now, Drain) = drain cfg now s"
| "step cfg s (now, Complete k r) = complete cfg now k r s"

definition run :: "Config \<Rightarrow> (int \<times> 'v event) list \<Rightarrow> 'v Scheduler \<Rightarrow> 'v Scheduler" where
  "run cfg es s = foldl (step cfg) s es"

text \<open>
Modelled from the spec: the scheduler at process start: nothing cached, queued or in flight;
  the test file initialises the last request time to 0.
\<close>

definition init :: "'v Scheduler" where
  "init =
     \<lparr>rcache = Map.empty, queue = [], tracker = (\<lambda>k. Idle),
      limiter = \<lparr>lastDispatchAt = 0, inFlightCount = 0, blockedUntil = None\<rparr>,
      attached = (\<lambda>k. []), resolved = Map.empty, nextFuture = 0, fetcherCalls = [], pending = []\<rparr>"

text \<open>
  Any two consecutive entries of a call log (newest first) start at least \<open>m\<close> apart.
\<close>

fun paced :: "int \<Rightarrow> (string \<times> int) list \<Rightarrow> bool" where
  "paced m [] = True"
| "paced m [c] = True"
| "paced m (c2 # c1 # cs) = (snd c2 - snd c1 \<ge> m \<and> paced m (c1 # cs))"

text \<open>
  Invariants of the scheduler, used in the proofs: the tracker agrees with the queue and the
  pending calls, the limiter's counter is the number of pending calls and stays within the
  cap, the call log is paced, and the futures attached to different keys are distinct and
  unresolved.
\<close>

definition inv_track :: "'v Scheduler \<Rightarrow> bool" where
  "inv_track s \<longleftrightarrow>
     distinct (pending s) \<and> distinct (map key (queue s))
     \<and> (\<forall>k. (k \<in> set (pending s)) = (tracker s k = InFlight))
     \<and> (\<forall>k. (k \<in> set (map key (queue s))) = (tracker s k = Queued))
     \<and> (\<forall>k. tracker s k = Idle \<or> tracker s k = Queued \<or> tracker s k = InFlight)"

definition inv_count :: "'v Scheduler \<Rightarrow> bool" where
  "inv_count s \<longleftrightarrow> inFlightCount (limiter s) = int (length (pending s))"

definition inv_pace :: "Config \<Rightarrow> 'v Scheduler \<Rightarrow> bool" where
  "inv_pace cfg s \<longleftrightarrow>
     paced (minInterval cfg) (fetcherCalls s)
     \<and> (case fetcherCalls s of [] \<Rightarrow> True | c # cs \<Rightarrow> lastDispatchAt (limiter s) = snd c)"

definition inv_cap :: "Config \<Rightarrow> 'v Scheduler \<Rightarrow> bool" where
  "inv_cap cfg s \<longleftrightarrow> length (pending s) \<le> maxConcurrent cfg"

definition inv :: "Config \<Rightarrow> 'v Scheduler \<Rightarrow> bool" where
  "inv cfg s \<longleftrightarrow> inv_track s \<and> inv_count s \<and> inv_pace cfg s \<and> inv_cap cfg s"







definition inv_att :: "'v Scheduler \<Rightarrow> bool" where
  "inv_att s \<longleftrightarrow> (\<forall>k. tracker s k = Idle \<longrightarrow> attached s k = [])"

definition inv_fut :: "'v Scheduler \<Rightarrow> bool" where
  "inv_fut s \<longleftrightarrow>
     (\<forall>k. \<forall>f \<in> set (attached s k). f < nextFuture s \<and> resolved s f = None)
     \<and> (\<forall>k. distinct (attached s k))
     \<and> (\<forall>k j. k \<noteq> j \<longrightarrow> set (attached s k) \<inter> set (attached s j) = {})
     \<and> (\<forall>f. nextFuture s \<le> f \<longrightarrow> resolved s f = None)"

definition reach_inv :: "Config \<Rightarrow> 'v Scheduler \<Rightarrow> bool" where
  "reach_inv cfg s \<longleftrightarrow> inv cfg s \<and> inv_att s \<and> inv_fut s"




section \<open>Theorems\<close>

subsection \<open>Cache expiry\<close>

lemma isCacheEntryExpired_None: "isCacheEntryExpired None now"
  by (simp add: isCacheEntryExpired_def)

lemma isCacheEntryExpired_no_expiry:
  "expiry e = None \<Longrightarrow> isCacheEntryExpired (Some e) now"
  by (simp add: isCacheEntryExpired_def)

lemma isCacheEntryExpired_Some:
  "expiry e = Some t \<Longrightarrow> isCacheEntryExpired (Some e) now \<longleftrightarrow> t = 0 \<or> t \<le> now"
  by (simp add: isCacheEntryExpired_def)

text \<open>
  C2. The expiry check reports "expired" exactly when the entry is absent, its expiry
  field is missing, or its expiry timestamp is at most the current time; an entry whose
  expiry is strictly greater than now is valid. The clock is \<open>Date.now()\<close>, milliseconds
  since the epoch, hence not negative; under that reading the falsy test \<open>!expiry\<close> for
  the number 0 agrees with \<open>0 <= now\<close>.
\<close>

theorem isCacheEntryExpired_iff:
  assumes "0 \<le> now"
  shows "isCacheEntryExpired cacheEntry now \<longleftrightarrow>
           (cacheEntry = None
            \<or> (\<exists>e. cacheEntry = Some e \<and> expiry e = None)
            \<or> (\<exists>e t. cacheEntry = Some e \<and> expiry e = Some t \<and> t \<le> now))"
proof (cases cacheEntry)
  case None
  then show ?thesis by (simp add: isCacheEntryExpired_None)
next
  case (Some e)
  show ?thesis
  proof (cases "expiry e")
    case None
    with Some show ?thesis by (simp add: isCacheEntryExpired_no_expiry)
  next
    case (Some t)
    with \<open>cacheEntry = Some e\<close> assms show ?thesis
      by (auto simp: isCacheEntryExpired_Some)
  qed
qed

theorem isCacheEntryExpired_iff_witness:
  "isCacheEntryExpired (Some \<lparr>location = ''Canada'', locationFlag = ''CA'', source = ''Canada'',
       sourceFlag = ''CA'', sourceCountry = ''Canada'', locationAccurate = True, isVpn = False,
       learnMoreUrl = None, expiry = Some 1000\<rparr>) 1000
   \<and> \<not> isCacheEntryExpired (Some \<lparr>location = ''Canada'', locationFlag = ''CA'', source = ''Canada'',
       sourceFlag = ''CA'', sourceCountry = ''Canada'', locationAccurate = True, isVpn = False,
       learnMoreUrl = None, expiry = Some 1001\<rparr>) 1000
   \<and> isCacheEntryExpired (Some \<lparr>location = ''Canada'', locationFlag = ''CA'', source = ''Canada'',
       sourceFlag = ''CA'', sourceCountry = ''Canada'', locationAccurate = True, isVpn = False,
       learnMoreUrl = None, expiry = None\<rparr>) 1000
   \<and> isCacheEntryExpired None 1000"
proof -
  have h: "(0::int) \<le> 1000" by simp
  show ?thesis
    by (simp add: isCacheEntryExpired_iff [OF h])
qed

subsection \<open>Cache writes\<close>

text \<open>
  C7. A cache write stores the value with an expiry of now plus the TTL of 30 days
  (2592000000 ms), whatever entry the key had before, and every value field of the stored
  entry is that of the fetched result.
\<close>

theorem saveCacheEntry_stores:
  "\<exists>e. saveCacheEntry username loc c now username = Some e
       \<and> expiry e = Some (now + 2592000000)
       \<and> expiry e = Some (now + CACHE_EXPIRY_DAYS * 86400000)
       \<and> location e = location loc \<and> locationFlag e = locationFlag loc
       \<and> source e = source loc \<and> sourceFlag e = sourceFlag loc
       \<and> sourceCountry e = sourceCountry loc
       \<and> locationAccurate e = locationAccurate loc \<and> isVpn e = isVpn loc
       \<and> learnMoreUrl e = learnMoreUrl loc
       \<and> saveCacheEntry username loc c' now username = Some e"
  by (simp add: saveCacheEntry_def CACHE_EXPIRY_DAYS_def)

theorem saveCacheEntry_stores_witness:
  "\<exists>e. saveCacheEntry ''alice'' \<lparr>location = ''Canada'', locationFlag = ''CA'', source = ''Canada'',
       sourceFlag = ''CA'', sourceCountry = ''Canada'', locationAccurate = True, isVpn = False,
       learnMoreUrl = None, expiry = Some 5\<rparr> Map.empty 1000 ''alice'' = Some e
     \<and> expiry e = Some 2592001000 \<and> location e = ''Canada''"
  using saveCacheEntry_stores [of "''alice''" "\<lparr>location = ''Canada'', locationFlag = ''CA'',
       source = ''Canada'', sourceFlag = ''CA'', sourceCountry = ''Canada'', locationAccurate = True,
       isVpn = False, learnMoreUrl = None, expiry = Some 5\<rparr>" Map.empty 1000 Map.empty]
  by auto

subsection \<open>Default mode\<close>

lemma storage_get_absent:
  "k \<notin> dom st \<Longrightarrow> fst (storage_get keys st) k = None"
  by (auto simp: storage_get_def restrict_map_def)

text \<open>
  C9. With no mode preference in storage, loading the mode gives \<open>auto\<close> and leaves the
  store as it was; the popup's load applies the same default, showing the auto button
  active, and does not write either.
\<close>

theorem loadMode_default:
  assumes "MODE_KEY \<notin> dom st"
  shows "loadMode st = (JStr MODE_AUTO, st)
       \<and> fst (fst (popup_onLoad st ui)) = JStr MODE_AUTO
       \<and> autoActive (snd (fst (popup_onLoad st ui)))
       \<and> \<not> manualActive (snd (fst (popup_onLoad st ui)))
       \<and> snd (popup_onLoad st ui) = st"
proof -
  from assms have miss: "st MODE_KEY = None" by auto
  have a: "loadMode st = (JStr MODE_AUTO, st)"
    using miss by (simp add: loadMode_def storage_get_def js_or_def restrict_map_def)
  have b: "popup_onLoad st ui = (popup_loadMode (JStr DEFAULT_MODE) ui, st)"
    using miss by (simp add: popup_onLoad_def storage_get_def js_or_def restrict_map_def)
  have c: "popup_loadMode (JStr DEFAULT_MODE) ui = (JStr MODE_AUTO, updateModeUI (JStr MODE_AUTO) ui)"
    by (simp add: popup_loadMode_def js_or_def DEFAULT_MODE_def MODE_AUTO_def Let_def)
  show ?thesis
    by (simp add: a b c updateModeUI_def)
qed

theorem loadMode_default_witness:
  "loadMode [TOGGLE_KEY \<mapsto> JBool True] = (JStr MODE_AUTO, [TOGGLE_KEY \<mapsto> JBool True])
   \<and> fst (fst (popup_onLoad [TOGGLE_KEY \<mapsto> JBool True] \<lparr>autoActive = False, manualActive = True\<rparr>))
       = JStr MODE_AUTO"
proof -
  have h: "MODE_KEY \<notin> dom [TOGGLE_KEY \<mapsto> JBool True]"
    by (simp add: MODE_KEY_def TOGGLE_KEY_def)
  show ?thesis
    using loadMode_default [OF h, of "\<lparr>autoActive = False, manualActive = True\<rparr>"] by simp
qed

subsection \<open>Processing pass, click and mode change\<close>

lemma buttonsOf_insertBeforeHandle_wrapper [simp]:
  "buttonsOf (insertBeforeHandle P els (FlagWrapper e)) = buttonsOf els"
  by (induction els rule: buttonsOf.induct) simp_all

lemma insertBeforeHandle_mem [simp]: "x \<in> set (insertBeforeHandle P els x)"
  by (induction els) simp_all

lemma insertBeforeHandle_keeps: "set els \<subseteq> set (insertBeforeHandle P els x)"
  by (induction els) auto

lemma extract_has_userName:
  "extractUsernameFromContainer c = Some k \<Longrightarrow> \<exists>els. userName c = Some els"
  by (cases "userName c") (simp_all add: extractUsernameFromContainer_def)


lemma findHandleSection_literal:
  "selector_literal k \<Longrightarrow> \<exists>P. findHandleSection q els k = Inr P"
  by (simp add: findHandleSection_def linkSelector_def)

lemma displayLocationInfo_literal:
  "selector_literal k \<Longrightarrow> snd (displayLocationInfo q c k e) = None"
  by (simp add: displayLocationInfo_def findHandleSection_def linkSelector_def Let_def
        split: option.splits)

lemma addButtonToUsername_literal:
  "selector_literal k \<Longrightarrow> snd (addButtonToUsername q c k n) = None"
  by (simp add: addButtonToUsername_def findHandleSection_def linkSelector_def Let_def
        split: option.splits)

lemma processContainer_literal:
  assumes "case extractUsernameFromContainer c of None \<Rightarrow> True | Some k \<Rightarrow> selector_literal k"
  shows "snd (processContainer q mode cache n c) = None"
proof (cases "extractUsernameFromContainer c")
  case None
  then show ?thesis by (simp add: processContainer_def)
next
  case (Some k)
  with assms have lit: "selector_literal k" by simp
  show ?thesis
    using Some displayLocationInfo_literal [OF lit, of q c] addButtonToUsername_literal [OF lit, of q c n]
    by (simp add: processContainer_def case_prod_beta split: option.splits)
qed

lemma processNodes_literal:
  "names_literal ns \<Longrightarrow> snd (processNodes q mode cache n ns) = None"
proof (induction ns arbitrary: n)
  case Nil
  then show ?case by simp
next
  case (Cons nd ns)
  show ?case
  proof (cases nd)
    case (Loose e)
    with Cons show ?thesis by (simp add: names_literal_def case_prod_beta)
  next
    case (Container c)
    with Cons.prems have
      lit: "case extractUsernameFromContainer c of None \<Rightarrow> True | Some k \<Rightarrow> selector_literal k"
      and rest: "names_literal ns"
      by (simp_all add: names_literal_def)
    obtain c' n1 err where pc: "processContainer q mode cache n c = ((c', n1), err)"
      by (metis prod.exhaust)
    from processContainer_literal [OF lit, of q mode cache n] pc have "err = None" by simp
    with pc Container Cons.IH [OF rest, of n1] show ?thesis
      by (simp add: case_prod_beta)
  qed
qed

lemma pass_completes_literal:
  "names_literal (document w) \<Longrightarrow> snd (processUsernamesWithMode q mode cache w) = None"
  using processNodes_literal [of "document w" q mode cache "nextButton w"]
  by (simp add: processUsernamesWithMode_def case_prod_beta)

lemma processContainer_counter: "n \<le> snd (fst (processContainer q mode cache n c))"
  by (auto simp: processContainer_def displayLocationInfo_def addButtonToUsername_def Let_def
        split: option.splits sum.splits)

lemma processNodes_counter: "n \<le> snd (fst (processNodes q mode cache n ns))"
proof (induction ns arbitrary: n)
  case Nil
  then show ?case by simp
next
  case (Cons nd ns)
  show ?case
  proof (cases nd)
    case (Loose e)
    with Cons [of n] show ?thesis by (simp add: case_prod_beta)
  next
    case (Container c)
    obtain c' n1 err where pc: "processContainer q mode cache n c = ((c', n1), err)"
      by (metis prod.exhaust)
    from processContainer_counter [of n q mode cache c] pc have le: "n \<le> n1" by simp
    show ?thesis
      using Container pc le Cons [of n1]
      by (cases err) (simp_all add: case_prod_beta)
  qed
qed

lemma processNodes_nth:
  assumes "snd (processNodes q mode cache n ns) = None"
      and "i < length ns" and "ns ! i = Container c"
  shows "\<exists>m. n \<le> m \<and> snd (processContainer q mode cache m c) = None
           \<and> fst (fst (processNodes q mode cache n ns)) ! i
               = Container (fst (fst (processContainer q mode cache m c)))"
  using assms
proof (induction ns arbitrary: n i)
  case Nil
  then show ?case by simp
next
  case (Cons nd ns)
  show ?case
  proof (cases nd)
    case (Loose e)
    with Cons.prems obtain j where j: "i = Suc j" by (cases i) auto
    from Cons.prems Loose j have
      "snd (processNodes q mode cache n ns) = None" "j < length ns" "ns ! j = Container c"
      by (simp_all add: case_prod_beta)
    from Cons.IH [OF this] Loose j show ?thesis by (simp add: case_prod_beta)
  next
    case (Container d)
    obtain c' n1 err where pc: "processContainer q mode cache n d = ((c', n1), err)"
      by (metis prod.exhaust)
    from Cons.prems(1) Container pc have err: "err = None"
      by (cases err) (simp_all add: case_prod_beta)
    from processContainer_counter [of n q mode cache d] pc have le: "n \<le> n1" by simp
    show ?thesis
    proof (cases i)
      case 0
      with Cons.prems Container have "d = c" by simp
      with 0 Container pc err show ?thesis
        by (intro exI [of _ n]) (simp add: case_prod_beta)
    next
      case (Suc j)
      from Cons.prems Container pc err Suc have
        "snd (processNodes q mode cache n1 ns) = None" "j < length ns" "ns ! j = Container c"
        by (simp_all add: case_prod_beta)
      from Cons.IH [OF this] obtain m where
        m: "n1 \<le> m" "snd (processContainer q mode cache m c) = None"
           "fst (fst (processNodes q mode cache n1 ns)) ! j
               = Container (fst (fst (processContainer q mode cache m c)))"
        by blast
      from m le Container pc err Suc show ?thesis
        by (intro exI [of _ m]) (simp add: case_prod_beta)
    qed
  qed
qed

lemma pass_nth:
  assumes "snd (processUsernamesWithMode q mode cache w) = None"
      and "i < length (document w)" and "document w ! i = Container c"
  shows "\<exists>m. nextButton w \<le> m \<and> snd (processContainer q mode cache m c) = None
           \<and> document (fst (processUsernamesWithMode q mode cache w)) ! i
               = Container (fst (fst (processContainer q mode cache m c)))"
proof -
  from assms(1) have "snd (processNodes q mode cache (nextButton w) (document w)) = None"
    by (simp add: processUsernamesWithMode_def case_prod_beta)
  from processNodes_nth [OF this assms(2,3)] show ?thesis
    by (simp add: processUsernamesWithMode_def case_prod_beta)
qed

lemma mock_calls_process [simp]:
  "mock_calls (fst (processUsernamesWithMode q mode cache w)) = mock_calls w"
  by (simp add: processUsernamesWithMode_def case_prod_beta)

lemma mock_calls_modeChange [simp]:
  "mock_calls (snd (fst (handleModeChange q newMode cache w))) = mock_calls w"
  by (simp add: handleModeChange_def case_prod_beta)

lemma processContainer_cached:
  assumes "extractUsernameFromContainer c = Some k" and "cache k = Some e"
      and "\<not> already_handled (flagAdded c)"
  shows "fst (fst (processContainer q mode cache n c)) = fst (displayLocationInfo q c k e)
       \<and> snd (processContainer q mode cache n c) = snd (displayLocationInfo q c k e)"
  using assms by (simp add: processContainer_def case_prod_beta)

lemma displayLocationInfo_done:
  assumes "snd (displayLocationInfo q c k e) = None" and "userName c = Some els"
  shows "\<exists>P. findHandleSection q els k = Inr P
           \<and> fst (displayLocationInfo q c k e)
               = c\<lparr>userName := Some (insertBeforeHandle P els (FlagWrapper e)),
                    flagAdded := Some ''true''\<rparr>"
  using assms
  by (auto simp: displayLocationInfo_def buildBracketedDisplay_def Let_def split: sum.splits)

lemma extract_mock:
  "extractUsernameFromContainer (createMockTwitterContainer ''alice'') = Some ''alice''"
  "extractUsernameFromContainer (createMockTwitterContainer ''bob'') = Some ''bob''"
  "extractUsernameFromContainer (createMockTwitterContainer quotedName) = Some quotedName"
  by (simp_all add: extractUsernameFromContainer_def createMockTwitterContainer_def
        href_match_def excludedRoutes_def quotedName_def)

text \<open>
  C1 (as amended). Take a processing pass, in either mode, that runs to its end without an
  exception; it does whenever every screen name on the page is one the handle selector
  takes literally (no double quote, backslash, line break or NUL). For every container
  of the page whose key has a present, non-expired cache entry and which is not already
  marked \<open>true\<close>, \<open>processing\<close>, \<open>waiting\<close> or \<open>button\<close>, the pass displays the cached
  value: the container of the resulting page is the one \<open>displayLocationInfo\<close> builds
  from the cached entry, whatever the mode, marked \<open>true\<close> (not \<open>processing\<close>), with
  the wrapper of the cached entry inserted, what it held before still there and no button
  created or added, and the fetcher is not called.
\<close>

theorem cache_first_unmarked:
  assumes "names_literal (document w) \<or> snd (processUsernamesWithMode q mode cache w) = None"
      and "i < length (document w)" and "document w ! i = Container c"
      and "extractUsernameFromContainer c = Some k"
      and "cache k = Some e" and "\<not> isCacheEntryExpired (cache k) now"
      and "\<not> already_handled (flagAdded c)"
  shows "\<exists>c'. snd (processUsernamesWithMode q mode cache w) = None
       \<and> document (fst (processUsernamesWithMode q mode cache w)) ! i = Container c'
       \<and> displayLocationInfo q c k e = (c', None)
       \<and> flagAdded c' = Some ''true''
       \<and> FlagWrapper e \<in> set (children c')
       \<and> set (children c) \<subseteq> set (children c')
       \<and> buttonsOf (children c') = buttonsOf (children c)
       \<and> mock_calls (fst (processUsernamesWithMode q mode cache w)) = mock_calls w"
proof -
  from assms(1) have ok: "snd (processUsernamesWithMode q mode cache w) = None"
    using pass_completes_literal by blast
  from pass_nth [OF ok assms(2,3)] obtain m where
    m: "snd (processContainer q mode cache m c) = None"
       "document (fst (processUsernamesWithMode q mode cache w)) ! i
          = Container (fst (fst (processContainer q mode cache m c)))"
    by blast
  from processContainer_cached [of c k cache e q mode m] assms(4,5,7) m have
    d: "snd (displayLocationInfo q c k e) = None"
       "document (fst (processUsernamesWithMode q mode cache w)) ! i
          = Container (fst (displayLocationInfo q c k e))"
    by simp_all
  from assms(4) obtain els where els: "userName c = Some els"
    using extract_has_userName by blast
  from displayLocationInfo_done [OF d(1) els] obtain P where
    P: "fst (displayLocationInfo q c k e)
          = c\<lparr>userName := Some (insertBeforeHandle P els (FlagWrapper e)),
               flagAdded := Some ''true''\<rparr>"
    by blast
  have eq: "displayLocationInfo q c k e = (fst (displayLocationInfo q c k e), None)"
    using d(1) by (metis prod.collapse)
  show ?thesis
    apply (rule exI [of _ "fst (displayLocationInfo q c k e)"])
    using ok d(2) eq
    by (simp add: P children_def els insertBeforeHandle_keeps)
qed

theorem cache_first_unmarked_witness:
  "snd (processUsernamesWithMode raising_engine MODE_MANUAL [''alice'' \<mapsto> mockLocation]
          \<lparr>document = [Container (createMockTwitterContainer ''bob''),
                       Container (createMockTwitterContainer ''alice'')],
           mockLocationCache = Map.empty, mock_calls = [], nextButton = 0\<rparr>) = None
   \<and> document (fst (processUsernamesWithMode raising_engine MODE_MANUAL
          [''alice'' \<mapsto> mockLocation]
          \<lparr>document = [Container (createMockTwitterContainer ''bob''),
                       Container (createMockTwitterContainer ''alice'')],
           mockLocationCache = Map.empty, mock_calls = [], nextButton = 0\<rparr>)) ! 1
       = Container \<lparr>flagAdded = Some ''true'',
                    userName = Some [Div ''/alice'' ''Display Name'', FlagWrapper mockLocation,
                                     Div ''/alice'' ''@alice'']\<rparr>
   \<and> document (fst (processUsernamesWithMode raising_engine MODE_AUTO
          [''alice'' \<mapsto> mockLocation]
          \<lparr>document = [Container (createMockTwitterContainer ''bob''),
                       Container (createMockTwitterContainer ''alice'')],
           mockLocationCache = Map.empty, mock_calls = [], nextButton = 0\<rparr>)) ! 1
       = Container \<lparr>flagAdded = Some ''true'',
                    userName = Some [Div ''/alice'' ''Display Name'', FlagWrapper mockLocation,
                                     Div ''/alice'' ''@alice'']\<rparr>"
proof -
  let ?w = "\<lparr>document = [Container (createMockTwitterContainer ''bob''),
                         Container (createMockTwitterContainer ''alice'')],
             mockLocationCache = Map.empty, mock_calls = [], nextButton = 0\<rparr>"
  let ?cache = "[''alice'' \<mapsto> mockLocation]"
  have lit: "names_literal (document ?w)"
    by (simp add: names_literal_def extract_mock selector_literal_def)
  have i: "(1::nat) < length (document ?w)"
          "document ?w ! 1 = Container (createMockTwitterContainer ''alice'')"
    by simp_all
  have b: "?cache ''alice'' = Some mockLocation" by simp
  have c: "\<not> isCacheEntryExpired (?cache ''alice'') 1000"
    by (simp add: isCacheEntryExpired_def mockLocation_def)
  have d: "\<not> already_handled (flagAdded (createMockTwitterContainer ''alice''))"
    by (simp add: already_handled_def createMockTwitterContainer_def)
  have e: "displayLocationInfo raising_engine (createMockTwitterContainer ''alice'') ''alice''
             mockLocation
           = (\<lparr>flagAdded = Some ''true'',
               userName = Some [Div ''/alice'' ''Display Name'', FlagWrapper mockLocation,
                                Div ''/alice'' ''@alice'']\<rparr>, None)"
    by (simp add: displayLocationInfo_def findHandleSection_def linkSelector_def
          selector_literal_def buildBracketedDisplay_def createMockTwitterContainer_def
          trim_def is_space_def)
  from cache_first_unmarked [of ?w raising_engine MODE_MANUAL ?cache 1
      "createMockTwitterContainer ''alice''" "''alice''" mockLocation 1000]
    lit i extract_mock(1) b c d e
  have m: "snd (processUsernamesWithMode raising_engine MODE_MANUAL ?cache ?w) = None
         \<and> document (fst (processUsernamesWithMode raising_engine MODE_MANUAL ?cache ?w)) ! 1
             = Container \<lparr>flagAdded = Some ''true'',
                    userName = Some [Div ''/alice'' ''Display Name'', FlagWrapper mockLocation,
                                     Div ''/alice'' ''@alice'']\<rparr>"
    by auto
  from cache_first_unmarked [of ?w raising_engine MODE_AUTO ?cache 1
      "createMockTwitterContainer ''alice''" "''alice''" mockLocation 1000]
    lit i extract_mock(1) b c d e
  have a: "document (fst (processUsernamesWithMode raising_engine MODE_AUTO ?cache ?w)) ! 1
             = Container \<lparr>flagAdded = Some ''true'',
                    userName = Some [Div ''/alice'' ''Display Name'', FlagWrapper mockLocation,
                                     Div ''/alice'' ''@alice'']\<rparr>"
    by auto
  from m a show ?thesis by blast
qed

theorem cache_first_counterexample:
  "extractUsernameFromContainer
      \<lparr>flagAdded = Some ''button'',
       userName = Some [Div ''/alice'' ''Display Name'', Button 0 ''alice'',
                        Div ''/alice'' ''@alice'']\<rparr> = Some ''alice''
   \<and> [''alice'' \<mapsto> mockLocation] ''alice'' = Some mockLocation
   \<and> \<not> isCacheEntryExpired ([''alice'' \<mapsto> mockLocation] ''alice'') 1000
   \<and> document (fst (processUsernamesWithMode raising_engine MODE_MANUAL
        [''alice'' \<mapsto> mockLocation]
        \<lparr>document = [Container \<lparr>flagAdded = Some ''button'',
            userName = Some [Div ''/alice'' ''Display Name'', Button 0 ''alice'',
                             Div ''/alice'' ''@alice'']\<rparr>],
         mockLocationCache = Map.empty, mock_calls = [], nextButton = 1\<rparr>))
       = [Container \<lparr>flagAdded = Some ''button'',
            userName = Some [Div ''/alice'' ''Display Name'', Button 0 ''alice'',
                             Div ''/alice'' ''@alice'']\<rparr>]
   \<and> document (fst (processUsernamesWithMode raising_engine MODE_AUTO
        [''alice'' \<mapsto> mockLocation]
        \<lparr>document = [Container \<lparr>flagAdded = Some ''button'',
            userName = Some [Div ''/alice'' ''Display Name'', Button 0 ''alice'',
                             Div ''/alice'' ''@alice'']\<rparr>],
         mockLocationCache = Map.empty, mock_calls = [], nextButton = 1\<rparr>))
       = [Container \<lparr>flagAdded = Some ''button'',
            userName = Some [Div ''/alice'' ''Display Name'', Button 0 ''alice'',
                             Div ''/alice'' ''@alice'']\<rparr>]
   \<and> extractUsernameFromContainer (createMockTwitterContainer quotedName) = Some quotedName
   \<and> \<not> isCacheEntryExpired ([quotedName \<mapsto> mockLocation] quotedName) 1000
   \<and> processNodes raising_engine MODE_AUTO [quotedName \<mapsto> mockLocation] 0
        [Container (createMockTwitterContainer quotedName)]
       = (([Container \<lparr>flagAdded = Some ''processing'',
             userName = Some [Div (''/'' @ quotedName) ''Display Name'',
                              Div (''/'' @ quotedName) (''@'' @ quotedName)]\<rparr>], 0),
          Some SyntaxError)
   \<and> document (fst (processUsernamesWithMode raising_engine MODE_AUTO
        [quotedName \<mapsto> mockLocation]
        \<lparr>document = [Container (createMockTwitterContainer quotedName)],
         mockLocationCache = Map.empty, mock_calls = [], nextButton = 0\<rparr>))
       = [Container \<lparr>flagAdded = Some ''processing'',
            userName = Some [Div (''/'' @ quotedName) ''Display Name'',
                             Div (''/'' @ quotedName) (''@'' @ quotedName)]\<rparr>]
   \<and> snd (processUsernamesWithMode raising_engine MODE_AUTO
        [quotedName \<mapsto> mockLocation]
        \<lparr>document = [Container (createMockTwitterContainer quotedName)],
         mockLocationCache = Map.empty, mock_calls = [], nextButton = 0\<rparr>) = Some SyntaxError"
proof -
  have x: "extractUsernameFromContainer
      \<lparr>flagAdded = Some ''button'',
       userName = Some [Div ''/alice'' ''Display Name'', Button 0 ''alice'',
                        Div ''/alice'' ''@alice'']\<rparr> = Some ''alice''"
    by (simp add: extractUsernameFromContainer_def href_match_def excludedRoutes_def)
  have nl: "\<not> selector_literal quotedName"
    by (simp add: selector_literal_def quotedName_def)
  have p: "processNodes raising_engine MODE_AUTO [quotedName \<mapsto> mockLocation] 0
        [Container (createMockTwitterContainer quotedName)]
       = (([Container \<lparr>flagAdded = Some ''processing'',
             userName = Some [Div (''/'' @ quotedName) ''Display Name'',
                              Div (''/'' @ quotedName) (''@'' @ quotedName)]\<rparr>], 0),
          Some SyntaxError)"
    using extract_mock(3) nl
    by (simp add: processContainer_def displayLocationInfo_def findHandleSection_def
          linkSelector_def raising_engine_def already_handled_def createMockTwitterContainer_def
          buildBracketedDisplay_def)
  show ?thesis
    using x extract_mock(3) p
    by (simp add: isCacheEntryExpired_def mockLocation_def processUsernamesWithMode_def
          processContainer_def already_handled_def)
qed







text \<open>
  C8. The mode-change handler, in either direction, leaves the result cache as it was:
  every key has the entry it had before, and the module's own cache is untouched as well;
  this holds for every selector engine, also when the handler ends with an exception.
\<close>

theorem mode_change_preserves_cache:
  "fst (fst (handleModeChange q newMode cache w)) k = cache k
   \<and> fst (fst (handleModeChange q MODE_AUTO cache w)) = cache
   \<and> fst (fst (handleModeChange q MODE_MANUAL cache w)) = cache
   \<and> mockLocationCache (snd (fst (handleModeChange q newMode cache w))) = mockLocationCache w"
  by (simp add: handleModeChange_def case_prod_beta)

theorem mode_change_preserves_cache_witness:
  "fst (fst (handleModeChange raising_engine MODE_AUTO [''alice'' \<mapsto> mockLocation]
          \<lparr>document = [Container (createMockTwitterContainer ''bob'')],
           mockLocationCache = Map.empty, mock_calls = [], nextButton = 0\<rparr>)) ''alice''
     = Some mockLocation
   \<and> fst (fst (handleModeChange raising_engine MODE_MANUAL [''alice'' \<mapsto> mockLocation]
          \<lparr>document = [Container (createMockTwitterContainer ''bob'')],
           mockLocationCache = Map.empty, mock_calls = [], nextButton = 0\<rparr>)) ''bob'' = None"
  using mode_change_preserves_cache [of raising_engine MODE_AUTO "[''alice'' \<mapsto> mockLocation]"
          "\<lparr>document = [Container (createMockTwitterContainer ''bob'')],
           mockLocationCache = Map.empty, mock_calls = [], nextButton = 0\<rparr>" "''alice''"]
        mode_change_preserves_cache [of raising_engine MODE_MANUAL "[''alice'' \<mapsto> mockLocation]"
          "\<lparr>document = [Container (createMockTwitterContainer ''bob'')],
           mockLocationCache = Map.empty, mock_calls = [], nextButton = 0\<rparr>" "''bob''"]
  by simp

lemma handleButtonClick_keeps_cache:
  "mockLocationCache (handleButtonClick button screenName answer w) = mockLocationCache w"
  by (simp add: handleButtonClick_def)

subsection \<open>Country flags\<close>

lemma codeToFlag_string:
  "codeToFlag (PStr u) =
     (if length u = 2 \<and> 65 \<le> u ! 0 \<and> u ! 0 \<le> 90 \<and> 65 \<le> u ! 1 \<and> u ! 1 \<le> 90
      then Inr (Some (PStr (regional_indicator (u ! 0 - 65) @ regional_indicator (u ! 1 - 65))))
      else Inr None)"
  by (auto simp: Let_def nat_diff_distrib')

lemma flagForCode_string: "\<exists>r. flagForCode (PStr u) = Inr r"
  by (cases "truthy_prop (js_get SPECIAL_FLAG_EMOJIS (map char_of u))")
     (simp_all add: flagForCode_def codeToFlag_string Let_def)

lemma fallback_returns: "\<exists>r. fallback entries lower = Inr r"
  by (induction entries lower rule: fallback.induct) (simp_all add: flagForCode_string)

lemma fallback_no_match:
  "\<forall>e\<in>set entries. toLowerCase (fst e) \<noteq> lower \<and> \<not> includes_str (toLowerCase (fst e)) lower
       \<and> \<not> includes_str lower (toLowerCase (fst e))
   \<Longrightarrow> fallback entries lower = Inr None"
  by (induction entries lower rule: fallback.induct) simp_all

lemma getCountryFlag_absent:
  "getCountryFlag None = Inr None" "getCountryFlag (Some []) = Inr None"
  by (simp_all add: getCountryFlag_def)

lemma getCountryFlag_own_or_missing:
  assumes "Object_prototype (trim countryName) = None"
  shows "\<exists>r. getCountryFlag (Some countryName) = Inr r"
proof (cases "countryName = []")
  case True
  then show ?thesis by (simp add: getCountryFlag_def)
next
  case False
  show ?thesis
  proof (cases "map_of COUNTRY_FLAGS (trim countryName)")
    case None
    with assms False show ?thesis
      by (simp add: getCountryFlag_def js_get_def fallback_returns)
  next
    case (Some v)
    then have "js_get COUNTRY_FLAGS (trim countryName) = Some (PStr (map of_char v))"
      by (simp add: js_get_def)
    with False show ?thesis
      by (cases "truthy_prop (Some (PStr (map of_char v :: nat list)))")
         (simp_all add: getCountryFlag_def Let_def fallback_returns flagForCode_string)
  qed
qed

text \<open>
  C10. The claim says \<open>getCountryFlag\<close> never throws. On the name \<open>__defineGetter__\<close> the
  exact-match read \<open>COUNTRY_FLAGS[name]\<close> finds the method every object inherits, a truthy
  function of two parameters; \<open>codeToFlag\<close> passes its length test and then calls
  \<open>code.charCodeAt\<close>, which a function does not have: a \<open>TypeError\<close>.
\<close>

theorem getCountryFlag_throws:
  "getCountryFlag (Some ''__defineGetter__'') = Inl TypeError"
  by code_simp


subsection \<open>Scheduler: invariants, deduplication, pacing, no negative caching\<close>

lemma submit_fields:
  "pending (snd (submit now k s)) = pending s"
  "limiter (snd (submit now k s)) = limiter s"
  "fetcherCalls (snd (submit now k s)) = fetcherCalls s"
  "rcache (snd (submit now k s)) = rcache s"
  by (simp_all add: submit_def Let_def split: option.splits)

lemma inv_track_submit: "inv_track s \<Longrightarrow> inv_track (snd (submit now k s))"
  unfolding inv_track_def submit_def Let_def tryClaim_def
  by (auto split: option.splits ProcessingState.splits)

lemma inv_track_drain:
  assumes i: "inv_track s"
  shows "inv_track (drain cfg now s)"
proof (cases "queue s")
  case Nil
  with i show ?thesis by (simp add: drain_def)
next
  case (Cons item rest)
  show ?thesis
  proof (cases "tryAcquire cfg now (limiter s)")
    case (MustWaitUntil t)
    with Cons i show ?thesis by (simp add: drain_def)
  next
    case (Granted rl)
    from i Cons have q: "tracker s (key item) = Queued"
      by (auto simp: inv_track_def)
    from i Cons have n: "key item \<notin> set (map key rest)" "distinct (map key rest)"
      by (auto simp: inv_track_def)
    have t: "\<And>j. (j \<in> set (pending s)) = (tracker s j = InFlight)"
      using i by (simp add: inv_track_def)
    have u: "(j \<in> set (map key rest)) = (j \<noteq> key item \<and> tracker s j = Queued)" for j
    proof -
      from i Cons have "(j \<in> set (map key (item # rest))) = (tracker s j = Queued)"
        by (simp add: inv_track_def)
      with n(1) show ?thesis by (cases "j = key item") simp_all
    qed
    have v: "\<And>j. tracker s j = Idle \<or> tracker s j = Queued \<or> tracker s j = InFlight"
      using i by (simp add: inv_track_def)
    have d: "distinct (pending s)" using i by (simp add: inv_track_def)
    have p: "key item \<notin> set (pending s)" using q t by simp
    show ?thesis
      unfolding inv_track_def
      using Cons Granted d p n t u v q
      by (simp add: drain_def markInFlight_def)
  qed
qed

lemma inv_track_complete: "inv_track s \<Longrightarrow> inv_track (complete cfg now k r s)"
  unfolding inv_track_def complete_def Let_def markDone_def markFailed_def
  by (auto split: FetchResult.splits)

lemma inv_count_submit: "inv_count s \<Longrightarrow> inv_count (snd (submit now k s))"
  by (simp add: inv_count_def submit_fields)

lemma inv_count_drain: "inv_count s \<Longrightarrow> inv_count (drain cfg now s)"
  unfolding inv_count_def drain_def tryAcquire_def
  by (auto split: list.splits acquire.splits if_splits)

lemma length_remove1_int:
  assumes "k \<in> set xs"
  shows "int (length (remove1 k xs)) = int (length xs) - 1"
proof -
  from assms obtain n where "length xs = Suc n" by (cases xs) auto
  with assms show ?thesis by (simp add: length_remove1)
qed

lemma inv_count_complete:
  assumes "inv_track s" and "inv_count s"
  shows "inv_count (complete cfg now k r s)"
proof (cases "tracker s k = InFlight")
  case False
  with assms show ?thesis by (simp add: complete_def)
next
  case True
  with assms have p: "k \<in> set (pending s)" by (simp add: inv_track_def)
  from assms(2) have c: "inFlightCount (limiter s) = int (length (pending s))"
    by (simp add: inv_count_def)
  show ?thesis
    using True c length_remove1_int [OF p]
    by (cases r) (simp_all add: inv_count_def complete_def Let_def release_def trip_def)
qed

lemma inv_pace_submit: "inv_pace cfg s \<Longrightarrow> inv_pace cfg (snd (submit now k s))"
  by (simp add: inv_pace_def submit_fields split: list.splits)

lemma paced_Cons:
  "paced m cs \<Longrightarrow> (case cs of [] \<Rightarrow> True | c # cs' \<Rightarrow> m \<le> t - snd c) \<Longrightarrow> paced m ((k, t) # cs)"
  by (cases cs) auto

lemma inv_pace_drain: "inv_pace cfg s \<Longrightarrow> inv_pace cfg (drain cfg now s)"
  unfolding inv_pace_def drain_def tryAcquire_def
  by (auto split: list.splits acquire.splits if_splits intro!: paced_Cons)

lemma inv_pace_complete: "inv_pace cfg s \<Longrightarrow> inv_pace cfg (complete cfg now k r s)"
  unfolding inv_pace_def complete_def Let_def release_def trip_def
  by (auto split: FetchResult.splits list.splits)

lemma inv_cap_submit: "inv_cap cfg s \<Longrightarrow> inv_cap cfg (snd (submit now k s))"
  by (simp add: inv_cap_def submit_fields)

lemma inv_cap_drain: "inv_count s \<Longrightarrow> inv_cap cfg s \<Longrightarrow> inv_cap cfg (drain cfg now s)"
  unfolding inv_cap_def inv_count_def drain_def tryAcquire_def
  by (auto split: list.splits acquire.splits if_splits)

lemma inv_cap_complete: "inv_cap cfg s \<Longrightarrow> inv_cap cfg (complete cfg now k r s)"
  unfolding inv_cap_def complete_def Let_def
  by (auto simp: length_remove1 split: FetchResult.splits)

lemma inv_init: "inv cfg init"
  by (simp add: inv_def inv_track_def inv_count_def inv_pace_def inv_cap_def init_def)

lemma inv_step: "inv cfg s \<Longrightarrow> inv cfg (step cfg s e)"
proof (cases e)
  case (Pair now ev)
  assume i: "inv cfg s"
  show ?thesis
  proof (cases ev)
    case (Submit k)
    with Pair i show ?thesis
      by (simp add: inv_def inv_track_submit inv_count_submit inv_pace_submit inv_cap_submit)
  next
    case (TriggerFetch k)
    with Pair i show ?thesis
      by (simp add: inv_def inv_track_submit inv_count_submit inv_pace_submit inv_cap_submit)
  next
    case Drain
    with Pair i show ?thesis
      by (simp add: inv_def inv_track_drain inv_count_drain inv_pace_drain inv_cap_drain)
  next
    case (Complete k r)
    with Pair i show ?thesis
      by (simp add: inv_def inv_track_complete inv_count_complete inv_pace_complete inv_cap_complete)
  qed
qed

lemma inv_run: "inv cfg s \<Longrightarrow> inv cfg (run cfg es s)"
  unfolding run_def by (induction es arbitrary: s) (simp_all add: inv_step)

lemma resolve_all_apply:
  "resolve_all fs r m f = (if f \<in> set fs then Some r else m f)"
  unfolding resolve_all_def by (induction fs arbitrary: m) auto

lemma inv_att_submit: "inv_track s \<Longrightarrow> inv_att s \<Longrightarrow> inv_att (snd (submit now k s))"
  unfolding inv_att_def inv_track_def submit_def Let_def tryClaim_def
  by (auto split: option.splits ProcessingState.splits)

lemma inv_att_drain: "inv_att s \<Longrightarrow> inv_att (drain cfg now s)"
  unfolding inv_att_def drain_def markInFlight_def
  by (auto split: list.splits acquire.splits)

lemma inv_att_complete: "inv_att s \<Longrightarrow> inv_att (complete cfg now k r s)"
  unfolding inv_att_def complete_def Let_def markDone_def markFailed_def
  by (auto split: FetchResult.splits)

lemma inv_fut_submit:
  assumes "inv_fut s"
  shows "inv_fut (snd (submit now k s))"
proof -
  have a: "f < nextFuture s \<and> resolved s f = None" if "f \<in> set (attached s j)" for f j
    using assms that by (auto simp: inv_fut_def)
  have d: "distinct (attached s j)" for j using assms by (simp add: inv_fut_def)
  have x: "set (attached s i) \<inter> set (attached s j) = {}" if "i \<noteq> j" for i j
    using assms that by (simp add: inv_fut_def)
  have fresh: "nextFuture s \<notin> set (attached s j)" for j using a [of "nextFuture s" j] by auto
  have g: "resolved s f = None" if "nextFuture s \<le> f" for f
    using assms that by (simp add: inv_fut_def)
  show ?thesis
  proof (cases "cache_get (rcache s) now k")
    case (Some v)
    then show ?thesis
      unfolding inv_fut_def submit_def Let_def
      using a d x fresh g by (auto simp: less_Suc_eq)
  next
    case None
    show ?thesis
    proof (cases "tryClaim (tracker s) k")
      case None
      with \<open>cache_get (rcache s) now k = None\<close> show ?thesis
        unfolding inv_fut_def submit_def Let_def
        using a d x fresh g by (auto simp: less_Suc_eq)
    next
      case (Some tr)
      with \<open>cache_get (rcache s) now k = None\<close> show ?thesis
        unfolding inv_fut_def submit_def Let_def
        using a d x fresh g by (auto simp: less_Suc_eq)
    qed
  qed
qed

lemma inv_fut_drain: "inv_fut s \<Longrightarrow> inv_fut (drain cfg now s)"
  unfolding inv_fut_def drain_def
  by (simp split: list.splits acquire.splits)

lemma inv_fut_complete:
  assumes "inv_fut s"
  shows "inv_fut (complete cfg now k r s)"
proof (cases "tracker s k = InFlight")
  case False
  with assms show ?thesis by (simp add: complete_def)
next
  case True
  have a: "f < nextFuture s \<and> resolved s f = None" if "f \<in> set (attached s j)" for f j
    using assms that by (auto simp: inv_fut_def)
  have d: "distinct (attached s j)" for j using assms by (simp add: inv_fut_def)
  have x: "set (attached s i) \<inter> set (attached s j) = {}" if "i \<noteq> j" for i j
    using assms that by (simp add: inv_fut_def)
  have g: "resolved s f = None" if "nextFuture s \<le> f" for f
    using assms that by (simp add: inv_fut_def)
  have y: "f \<notin> set (attached s k)" if "f \<in> set (attached s j)" "j \<noteq> k" for f j
    using x [of j k] that by auto
  have z: "f \<notin> set (attached s k)" if "nextFuture s \<le> f" for f
    using a [of f k] that by auto
  show ?thesis
  proof (cases r)
    case (Success v)
    with True show ?thesis
      unfolding inv_fut_def complete_def Let_def
      using a d x g y z by (auto simp: resolve_all_apply)
  next
    case (Failure why)
    with True show ?thesis
      unfolding inv_fut_def complete_def Let_def
      using a d x g y z by (auto simp: resolve_all_apply)
  next
    case (Throttled resetAt)
    with True show ?thesis
      unfolding inv_fut_def complete_def Let_def
      using a d x g y z by (auto simp: resolve_all_apply)
  qed
qed

lemma reach_inv_init: "reach_inv cfg init"
  by (simp add: reach_inv_def inv_init) (simp add: inv_att_def inv_fut_def init_def)

lemma reach_inv_step: "reach_inv cfg s \<Longrightarrow> reach_inv cfg (step cfg s e)"
proof -
  assume r: "reach_inv cfg s"
  then have i: "inv cfg s" and a: "inv_att s" and f: "inv_fut s" and t: "inv_track s"
    by (simp_all add: reach_inv_def inv_def)
  obtain now ev where e: "e = (now, ev)" by (cases e)
  have "inv_att (step cfg s e) \<and> inv_fut (step cfg s e)"
    unfolding e
    by (cases ev)
       (simp_all add: inv_att_submit inv_att_drain inv_att_complete
          inv_fut_submit inv_fut_drain inv_fut_complete a f t)
  with inv_step [OF i, of e] show ?thesis by (simp add: reach_inv_def)
qed

lemma reach_inv_run: "reach_inv cfg s \<Longrightarrow> reach_inv cfg (run cfg es s)"
  unfolding run_def by (induction es arbitrary: s) (simp_all add: reach_inv_step)

lemma complete_other_key:
  "j \<noteq> k \<Longrightarrow> rcache (complete cfg now j r s) k = rcache s k"
  "j \<noteq> k \<Longrightarrow> attached (complete cfg now j r s) k = attached s k"
  "j \<noteq> k \<Longrightarrow> tracker (complete cfg now j r s) k = tracker s k"
  "fetcherCalls (complete cfg now j r s) = fetcherCalls s"
  "nextFuture (complete cfg now j r s) = nextFuture s"
  by (cases r; simp add: complete_def Let_def cache_set_def markDone_def markFailed_def)+

lemma drain_fields:
  "rcache (drain cfg now s) = rcache s"
  "attached (drain cfg now s) = attached s"
  "resolved (drain cfg now s) = resolved s"
  "nextFuture (drain cfg now s) = nextFuture s"
  by (simp_all add: drain_def split: list.splits acquire.splits)



lemma run_Cons: "run cfg (e # es) s = run cfg es (step cfg s e)"
  by (simp add: run_def)























lemma paced_nth:
  "paced m cs \<Longrightarrow> Suc i < length cs \<Longrightarrow> m \<le> snd (cs ! i) - snd (cs ! Suc i)"
proof (induction m cs arbitrary: i rule: paced.induct)
  case (3 m c2 c1 cs)
  then show ?case by (cases i) simp_all
qed simp_all

text \<open>
  C5. In every run of the scheduler from its initial state, any two consecutive Fetcher
  invocations start at least minInterval apart (whatever slots they occupy), and at no time
  are more than maxConcurrent Fetcher calls without a response; an explicit trigger (a
  button click) goes through the same submit as any other request; the defaults are 2000 ms
  and 2.
\<close>

theorem pacing_and_concurrency:
  "paced (minInterval cfg) (fetcherCalls (run cfg es init))
   \<and> (\<forall>i. Suc i < length (fetcherCalls (run cfg es init)) \<longrightarrow>
          minInterval cfg \<le> snd (fetcherCalls (run cfg es init) ! i)
                              - snd (fetcherCalls (run cfg es init) ! Suc i))
   \<and> length (pending (run cfg es init)) \<le> maxConcurrent cfg
   \<and> step cfg (run cfg es init) (t, TriggerFetch k) = step cfg (run cfg es init) (t, Submit k)
   \<and> minInterval default_config = 2000 \<and> maxConcurrent default_config = 2"
proof -
  have "reach_inv cfg (run cfg es init)" using reach_inv_init [of cfg] by (rule reach_inv_run)
  then have p: "paced (minInterval cfg) (fetcherCalls (run cfg es init))"
    and c: "length (pending (run cfg es init)) \<le> maxConcurrent cfg"
    by (simp_all add: reach_inv_def inv_def inv_pace_def inv_cap_def)
  from p have "\<forall>i. Suc i < length (fetcherCalls (run cfg es init)) \<longrightarrow>
          minInterval cfg \<le> snd (fetcherCalls (run cfg es init) ! i)
                              - snd (fetcherCalls (run cfg es init) ! Suc i)"
    by (simp add: paced_nth)
  with p c show ?thesis by (simp add: default_config_def)
qed

theorem pacing_and_concurrency_witness:
  "fetcherCalls (run default_config
      [(2000, Submit ''a''), (2000, TriggerFetch ''b''), (2000, Submit ''c''), (2000, Drain),
       (2500, Drain), (4000, Drain), (6000, Drain :: nat event)] init)
     = [(''b'', 4000), (''a'', 2000)]
   \<and> paced 2000 (fetcherCalls (run default_config
      [(2000, Submit ''a''), (2000, TriggerFetch ''b''), (2000, Submit ''c''), (2000, Drain),
       (2500, Drain), (4000, Drain), (6000, Drain :: nat event)] init))
   \<and> length (pending (run default_config
      [(2000, Submit ''a''), (2000, TriggerFetch ''b''), (2000, Submit ''c''), (2000, Drain),
       (2500, Drain), (4000, Drain), (6000, Drain :: nat event)] init)) \<le> 2"
proof -
  have f: "fetcherCalls (run default_config
      [(2000, Submit ''a''), (2000, TriggerFetch ''b''), (2000, Submit ''c''), (2000, Drain),
       (2500, Drain), (4000, Drain), (6000, Drain :: nat event)] init)
     = [(''b'', 4000), (''a'', 2000)]"
    by (simp add: run_def init_def default_config_def submit_def drain_def tryAcquire_def
          tryClaim_def cache_get_def markInFlight_def Let_def)
  show ?thesis
    using f pacing_and_concurrency [of default_config
      "[(2000, Submit ''a''), (2000, TriggerFetch ''b''), (2000, Submit ''c''), (2000, Drain),
        (2500, Drain), (4000, Drain), (6000, Drain :: nat event)]" 0 "''a''"]
    by (simp add: default_config_def)
qed

lemma cache_get_mono:
  "cache_get c t k = None \<Longrightarrow> t \<le> t' \<Longrightarrow> cache_get c t' k = None"
  by (auto simp: cache_get_def split: option.splits if_splits)

lemma complete_failure_cache: "rcache (complete cfg t k (Failure why) s) = rcache s"
  by (simp add: complete_def Let_def)

lemma complete_throttled_cache: "rcache (complete cfg t k (Throttled u) s) = rcache s"
  by (simp add: complete_def Let_def)

lemma step_no_success_cache:
  assumes "\<forall>v. ev \<noteq> Complete k (Success v)"
  shows "rcache (step cfg s (t, ev)) k = rcache s k"
proof (cases ev)
  case (Complete j r)
  show ?thesis
  proof (cases "j = k")
    case True
    with assms Complete show ?thesis
      by (cases r) (simp_all add: complete_failure_cache complete_throttled_cache)
  next
    case False
    with Complete show ?thesis by (simp add: complete_other_key)
  qed
qed (simp_all add: submit_fields drain_fields)

lemma run_no_success_cache:
  "\<forall>e\<in>set es. \<forall>v. snd e \<noteq> Complete k (Success v) \<Longrightarrow> rcache (run cfg es s) k = rcache s k"
proof (induction es arbitrary: s)
  case Nil
  then show ?case by (simp add: run_def)
next
  case (Cons e es)
  obtain t ev where e: "e = (t, ev)" by (cases e)
  from Cons.prems e have "\<forall>v. ev \<noteq> Complete k (Success v)" by simp
  then have "rcache (step cfg s e) k = rcache s k" unfolding e by (rule step_no_success_cache)
  moreover from Cons have "rcache (run cfg es (step cfg s e)) k = rcache (step cfg s e) k" by simp
  ultimately show ?case by (simp add: run_Cons)
qed

text \<open>
  C6. A failed lookup (timeout, transport failure, no result) writes nothing to the cache,
  and neither does a throttled one: a key that missed before still misses afterwards, it is
  idle again and a new submit queues it; over any sequence of events the entry of a key can
  only change through a successful lookup of that key.
\<close>

theorem no_negative_caching:
  "rcache (complete cfg t k (Failure why) s) = rcache s
   \<and> rcache (complete cfg t k (Throttled u) s) = rcache s
   \<and> (cache_get (rcache s) t k = None \<and> t \<le> t' \<longrightarrow>
        cache_get (rcache (complete cfg t k (Failure why) s)) t' k = None)
   \<and> (tracker s k = InFlight \<longrightarrow> tracker (complete cfg t k (Failure why) s) k = Idle)
   \<and> (tracker s k = InFlight \<and> cache_get (rcache s) t' k = None \<longrightarrow>
        tracker (snd (submit t' k (complete cfg t k (Failure why) s))) k = Queued
        \<and> k \<in> set (map key (queue (snd (submit t' k (complete cfg t k (Failure why) s))))))
   \<and> ((\<forall>e\<in>set es. \<forall>v. snd e \<noteq> Complete k (Success v)) \<longrightarrow>
        rcache (run cfg es s) k = rcache s k)"
proof -
  have 1: "rcache (complete cfg t k (Failure why) s) = rcache s"
    by (rule complete_failure_cache)
  have 2: "cache_get (rcache (complete cfg t k (Failure why) s)) t' k = None"
    if "cache_get (rcache s) t k = None" "t \<le> t'"
    using that by (simp add: 1 cache_get_mono)
  have 3: "tracker (complete cfg t k (Failure why) s) k = Idle" if "tracker s k = InFlight"
    using that by (simp add: complete_def Let_def markFailed_def)
  have 4: "tracker (snd (submit t' k (complete cfg t k (Failure why) s))) k = Queued
        \<and> k \<in> set (map key (queue (snd (submit t' k (complete cfg t k (Failure why) s)))))"
    if "tracker s k = InFlight" "cache_get (rcache s) t' k = None"
    using that 3 by (simp add: submit_def Let_def 1 tryClaim_def)
  have 5: "rcache (run cfg es s) k = rcache s k"
    if "\<forall>e\<in>set es. \<forall>v. snd e \<noteq> Complete k (Success v)"
    using that by (rule run_no_success_cache)
  have 6: "rcache (complete cfg t k (Throttled u) s) = rcache s"
    by (rule complete_throttled_cache)
  from 1 2 3 4 5 6 show ?thesis by blast
qed

theorem no_negative_caching_witness:
  "cache_get (rcache (complete default_config 12000 ''bob'' (Failure Timeout)
       (run default_config [(2000, Submit ''bob''), (2000, Drain :: nat event)] init)))
     20000 ''bob'' = None
   \<and> tracker (complete default_config 12000 ''bob'' (Failure Timeout)
       (run default_config [(2000, Submit ''bob''), (2000, Drain :: nat event)] init)) ''bob'' = Idle
   \<and> tracker (snd (submit 20000 ''bob'' (complete default_config 12000 ''bob'' (Failure Timeout)
       (run default_config [(2000, Submit ''bob''), (2000, Drain :: nat event)] init)))) ''bob''
     = Queued"
proof -
  let ?s = "run default_config [(2000, Submit ''bob''), (2000, Drain :: nat event)] init"
  have a: "tracker ?s ''bob'' = InFlight"
    by (simp add: run_def init_def default_config_def submit_def drain_def tryAcquire_def
          tryClaim_def cache_get_def markInFlight_def Let_def)
  have b: "rcache ?s ''bob'' = None"
    by (simp add: run_def init_def submit_fields drain_fields)
  have c: "cache_get (rcache ?s) t ''bob'' = None" for t
    using b by (simp add: cache_get_def)
  show ?thesis
    using no_negative_caching [of default_config 12000 "''bob''" Timeout ?s 0 20000 "[]"]
      a c [of 12000] c [of 20000]
    by simp
qed

end
